theory Spec2Isabelle
  imports Main "HOL-Library.AList"
begin

section \<open>JavaScript values and objects\<close>

text \<open>
  The server is JavaScript: call entries, webhook payloads and campaign records are
  plain objects built with object literals and spreads. A value is one of the JSON
  shapes, \<open>undefined\<close>, \<open>NaN\<close>, a function (a listener callback, known only by a
  number) or \<open>JDate t\<close>: the string that \<open>new Date().toISOString()\<close> returns at
  the instant \<open>t\<close> (milliseconds). An object is the list of its own properties in
  insertion order.
\<close>

datatype jsval =
    Undefined
  | Null
  | JBool bool
  | JNum int
  | JNaN
  | JStr string
  | JDate nat
  | JFun nat
  | JArr "jsval list"
  | JObj "(string \<times> jsval) list"

type_synonym obj = "(string \<times> jsval) list"

text \<open>Truthiness, as \<open>if (v)\<close>, \<open>!v\<close>, \<open>a && b\<close> and \<open>a || b\<close> read it.\<close>

fun truthy :: "jsval \<Rightarrow> bool" where
  "truthy Undefined = False"
| "truthy Null = False"
| "truthy (JBool b) = b"
| "truthy (JNum n) = (n \<noteq> 0)"
| "truthy JNaN = False"
| "truthy (JStr s) = (s \<noteq> [])"
| "truthy (JDate t) = True"
| "truthy (JFun f) = True"
| "truthy (JArr xs) = True"
| "truthy (JObj ob) = True"

definition js_or :: "jsval \<Rightarrow> jsval \<Rightarrow> jsval" where
  "js_or a b = (if truthy a then a else b)"

text \<open>\<open>ob.k\<close> on an object: a missing property reads \<open>undefined\<close>.\<close>

definition getp :: "obj \<Rightarrow> string \<Rightarrow> jsval" where
  "getp ob k = (case map_of ob k of Some v \<Rightarrow> v | None \<Rightarrow> Undefined)"

text \<open>
  \<open>v?.k\<close>, and \<open>v.k\<close> on a value already known to be truthy: the property of an
  object, \<open>undefined\<close> on anything else (none of the keys read this way is a built-in
  property of a string, a number or an array).
\<close>

fun opt :: "jsval \<Rightarrow> string \<Rightarrow> jsval" where
  "opt (JObj ob) k = getp ob k"
| "opt v k = Undefined"

text \<open>\<open>{...v}\<close>: the own properties of an object; a primitive spreads to nothing.\<close>

fun asObj :: "jsval \<Rightarrow> obj" where
  "asObj (JObj ob) = ob"
| "asObj v = []"

text \<open>
  \<open>{...a, ...b}\<close>: the keys of \<open>a\<close> keep their place and take the value \<open>b\<close> gives
  them, the new keys of \<open>b\<close> follow in the order of \<open>b\<close>.
\<close>

definition spread :: "obj \<Rightarrow> obj \<Rightarrow> obj" where
  "spread a b = fold (\<lambda>(k, v) acc. AList.update k v acc) b a"

text \<open>
  \<open>new Date(v).getTime()\<close>: the instant of a string made by \<open>toISOString\<close>, a number as
  it is, \<open>NaN\<close> (here \<open>None\<close>) otherwise. Text that came in from outside is not parsed
  as a date in this model.
\<close>

fun dateMs :: "jsval \<Rightarrow> int option" where
  "dateMs (JDate t) = Some (int t)"
| "dateMs (JNum n) = Some n"
| "dateMs v = None"

section \<open>The call monitor (server/services/callMonitor.js)\<close>

text \<open>
  A registry entry is the object \<open>addCall\<close> builds. Its three arrays are typed fields of
  their own, since the code pushes to them; every other property is in \<open>props\<close>.
  \<open>addCall\<close> always sets the arrays, so \<open>!call.transcript\<close> and \<open>!call.statusHistory\<close> are
  never true of an entry.
\<close>

record call =
  props :: obj
  transcript :: "obj list"
  events :: "obj list"
  statusHistory :: "obj list"

text \<open>
  The second argument of \<open>updateCall\<close>: the keys other than the arrays, and the
  \<open>transcript\<close> array when the update has one. No caller passes another
  \<open>statusHistory\<close> array than the entry's own (webhookController passes
  \<open>currentCall.statusHistory\<close> or the entry itself), so the spread never changes that
  property and the update needs no field for it.
\<close>

record updates =
  u_props :: obj
  u_transcript :: "obj list option"

datatype readyState = CONNECTING | OPEN | CLOSING | CLOSED

text \<open>
  A WebSocket made by \<open>setupAudioStreamWithRetry\<close>, with the variables its event
  handlers close over.
\<close>

record socket =
  sk_callId :: jsval
  sk_listenUrl :: jsval
  sk_retryCount :: nat
  sk_isConnected :: bool
  sk_timeoutPending :: bool
  sk_readyState :: readyState
  sk_bufferLength :: nat

record retryInfo =
  ri_count :: nat
  ri_lastError :: jsval
  ri_nextRetryAt :: nat

text \<open>
  What a \<open>setTimeout\<close> callback will do, with the values it closes over. The list
  \<open>timers\<close> records every registration with its delay in milliseconds.
\<close>

datatype timer =
    ConnectionTimeout nat
  | AudioRetry jsval jsval nat
  | EndedCleanup jsval jsval nat
  | EndedRemoval jsval
  | EndedRecheck jsval
  | FailedRemoval jsval
  | NoAnswerRemoval jsval
  | ExecuteCampaign string
  | ProcessBatch string

text \<open>A call that starts an \<open>async\<close> function without awaiting it.\<close>

datatype task =
    UpdateCallStatus jsval string obj
  | RunCampaign string

record contact =
  phone_number :: string
  leadid :: jsval
  first_name :: jsval
  last_name :: jsval
  lead_source :: jsval
  case_type :: jsval
  organizationid :: jsval

record stats =
  st_total :: int
  st_completed :: int
  st_failed :: int
  st_inProgress :: int
  st_queued :: int

text \<open>
  A campaign record as \<open>startCampaign\<close> writes it. \<open>cp_extra\<close> holds the keys that are
  only written: \<open>redisService.updateCampaign\<close> spreads its updates over the record, so
  the dotted keys \<open>'stats.queued'\<close>, \<open>'stats.inProgress'\<close> and \<open>'stats.failed'\<close> become
  top-level properties and land there.
\<close>

record campaign =
  cp_id :: string
  cp_name :: jsval
  cp_status :: string
  cp_callDelay :: int
  cp_maxConcurrent :: nat
  cp_stats :: stats
  cp_currentBatch :: int
  cp_extra :: obj

text \<open>
  The state of the process and of the shared store: the fields of the \<open>CallMonitor\<close>
  singleton, the sockets and timers it made, what was handed to listeners and
  broadcast, the entries of the \<open>Map\<close> \<open>activeCallsByPhone\<close> of callController in
  insertion order, and the Redis keys
  \<open>campaign:{id}\<close>, \<open>active_campaigns\<close>, \<open>campaign_queue:{id}\<close>,
  \<open>campaign_calls:{id}\<close> and \<open>conference:{id}\<close> (expiry is not modelled). The last three
  fields are the environment: whether \<open>new WebSocket(url)\<close> throws (and with what
  message), what \<open>vapiService.createCall\<close> answers, and \<open>NODE_ENV === 'development'\<close>.
\<close>

record world =
  activeCalls :: "(jsval \<times> call) list"
  callListeners :: "jsval \<rightharpoonup> (jsval \<times> jsval) list"
  audioStreams :: "jsval \<rightharpoonup> nat"
  retryAttempts :: "jsval \<rightharpoonup> retryInfo"
  callStateHistory :: "jsval \<rightharpoonup> obj list"
  sockets :: "socket list"
  timers :: "(nat \<times> timer) list"
  spawned :: "task list"
  delivered :: "(jsval \<times> jsval \<times> obj) list"
  broadcasts :: "obj list"
  sseUpdates :: "obj list"
  activeCallsByPhone :: "(string \<times> obj) list"
  campaigns :: "string \<rightharpoonup> campaign"
  active_campaigns :: "string list"
  campaign_queue :: "string \<rightharpoonup> contact list"
  campaign_calls :: "string \<rightharpoonup> (jsval \<times> obj) list"
  conferences :: "string \<rightharpoonup> obj"
  wsConstructorError :: "jsval \<Rightarrow> string option"
  vapiCreateCall :: "obj \<Rightarrow> string + obj"
  development :: bool

definition getCall :: "jsval \<Rightarrow> world \<Rightarrow> call option" where
  "getCall callId w = map_of (activeCalls w) callId"

text \<open>
  \<open>emitToListeners\<close>: every callback registered for the call is invoked with the
  event. A registered value that is not a function throws inside the \<open>try\<close> and is
  only logged.
\<close>

definition emitToListeners :: "jsval \<Rightarrow> obj \<Rightarrow> world \<Rightarrow> world" where
  "emitToListeners callId event w =
     (case callListeners w callId of
        None \<Rightarrow> w
      | Some listeners \<Rightarrow>
          w\<lparr>delivered := delivered w @
              map (\<lambda>(listenerId, callback). (callId, listenerId, event))
                (filter (\<lambda>(listenerId, callback). case callback of JFun f \<Rightarrow> True | _ \<Rightarrow> False)
                   listeners)\<rparr>)"

definition maxRetries :: nat where
  "maxRetries = 3"

text \<open>\<open>Math.pow(2, retryCount) * 1000\<close>.\<close>

definition retryDelay :: "nat \<Rightarrow> nat" where
  "retryDelay retryCount = 2 ^ retryCount * 1000"

definition handleAudioStreamRetry :: "jsval \<Rightarrow> jsval \<Rightarrow> nat \<Rightarrow> jsval \<Rightarrow> nat \<Rightarrow> world \<Rightarrow> world" where
  "handleAudioStreamRetry callId listenUrl retryCount errorReason now w =
     (if retryCount < maxRetries then
        let nextRetryCount = retryCount + 1;
            w1 = w\<lparr>retryAttempts := (retryAttempts w)(callId \<mapsto>
                      \<lparr>ri_count = nextRetryCount, ri_lastError = errorReason,
                       ri_nextRetryAt = now + retryDelay retryCount\<rparr>)\<rparr>;
            w2 = w1\<lparr>timers := timers w1 @
                      [(retryDelay retryCount, AudioRetry callId listenUrl nextRetryCount)]\<rparr>
        in emitToListeners callId
             [(''type'', JStr ''audio_retry_scheduled''), (''callId'', callId),
              (''retryCount'', JNum (int nextRetryCount)), (''maxRetries'', JNum (int maxRetries)),
              (''retryDelay'', JNum (int (retryDelay retryCount))), (''reason'', errorReason)] w2
      else
        emitToListeners callId
          [(''type'', JStr ''audio_retry_failed''), (''callId'', callId),
           (''maxRetries'', JNum (int maxRetries)), (''finalError'', errorReason)]
          (w\<lparr>retryAttempts := (retryAttempts w)(callId := None)\<rparr>))"

text \<open>
  \<open>setupAudioStreamWithRetry\<close>: nothing without a URL; a constructor that throws goes
  to the retry logic at once; otherwise the socket exists, not yet connected, and the
  10 second connection timer runs.
\<close>

definition setupAudioStreamWithRetry :: "jsval \<Rightarrow> jsval \<Rightarrow> nat \<Rightarrow> nat \<Rightarrow> world \<Rightarrow> world" where
  "setupAudioStreamWithRetry callId listenUrl retryCount now w =
     (if \<not> truthy listenUrl then w
      else case wsConstructorError w listenUrl of
        Some message \<Rightarrow> handleAudioStreamRetry callId listenUrl retryCount (JStr message) now w
      | None \<Rightarrow>
          w\<lparr>sockets := sockets w @
                [\<lparr>sk_callId = callId, sk_listenUrl = listenUrl, sk_retryCount = retryCount,
                  sk_isConnected = False, sk_timeoutPending = True, sk_readyState = CONNECTING,
                  sk_bufferLength = 0\<rparr>],
            timers := timers w @ [(10000, ConnectionTimeout (length (sockets w)))]\<rparr>)"



definition setSocket :: "nat \<Rightarrow> socket \<Rightarrow> world \<Rightarrow> world" where
  "setSocket i sk w = w\<lparr>sockets := (sockets w)[i := sk]\<rparr>"






definition closeAudioStream :: "jsval \<Rightarrow> world \<Rightarrow> world" where
  "closeAudioStream callId w =
     (case audioStreams w callId of
        None \<Rightarrow> w
      | Some i \<Rightarrow>
          if i < length (sockets w) \<and> sk_readyState (sockets w ! i) = OPEN
          then (setSocket i ((sockets w ! i)\<lparr>sk_readyState := CLOSING\<rparr>) w)
                 \<lparr>audioStreams := (audioStreams w)(callId := None)\<rparr>
          else w)"

text \<open>The properties of \<open>callData\<close> that stay in \<open>props\<close>: all but the three arrays.\<close>

definition scalarProps :: "obj \<Rightarrow> obj" where
  "scalarProps ob =
     filter (\<lambda>(k, v). k \<noteq> ''transcript'' \<and> k \<noteq> ''events'' \<and> k \<noteq> ''statusHistory'') ob"

definition addCall :: "obj \<Rightarrow> nat \<Rightarrow> world \<Rightarrow> world" where
  "addCall callData now w =
     (let enhancedCallData =
            \<lparr>props = spread (scalarProps callData)
                       [(''addedAt'', JDate now),
                        (''extendedMonitoring'', js_or (getp callData ''extendedMonitoring'') (JBool False)),
                        (''debugMode'', js_or (getp callData ''debugMode'') (JBool False)),
                        (''hasActiveListeners'', JBool False),
                        (''listenerCount'', JNum 0)],
             transcript = [],
             events = [],
             statusHistory =
               [[(''status'', js_or (getp callData ''status'') (JStr ''queued'')),
                 (''timestamp'', JDate now), (''source'', JStr ''call_creation'')]]\<rparr>;
          callId = getp callData ''id'';
          w1 = w\<lparr>activeCalls := AList.update callId enhancedCallData (activeCalls w)\<rparr>;
          w2 = w1\<lparr>callStateHistory := (callStateHistory w1)(callId \<mapsto> [])\<rparr>;
          listenUrl = opt (getp callData ''monitor'') ''listenUrl''
      in if truthy listenUrl then setupAudioStreamWithRetry callId listenUrl 0 now w2 else w2)"

text \<open>
  \<open>updateCall\<close>: a status that is truthy and differs from the entry's is logged in both
  histories; then the update is spread over the entry, whatever it holds, and
  \<open>updatedAt\<close> is set. There is no other condition on the new status.
\<close>

definition updateCall :: "jsval \<Rightarrow> updates \<Rightarrow> nat \<Rightarrow> world \<Rightarrow> world" where
  "updateCall callId upd now w =
     (case getCall callId w of
        None \<Rightarrow> w
      | Some call \<Rightarrow>
          let newStatus = getp (u_props upd) ''status'';
              changed = (truthy newStatus \<and> newStatus \<noteq> getp (props call) ''status'');
              call1 = (if changed then
                         call\<lparr>statusHistory := statusHistory call @
                           [[(''from'', getp (props call) ''status''), (''to'', newStatus),
                             (''timestamp'', JDate now), (''source'', JStr ''webhook_update'')]]\<rparr>
                       else call);
              w1 = (if changed then
                      w\<lparr>callStateHistory := (callStateHistory w)(callId \<mapsto>
                          (case callStateHistory w callId of None \<Rightarrow> [] | Some h \<Rightarrow> h) @
                          [[(''status'', newStatus), (''timestamp'', JDate now),
                            (''previousStatus'', getp (props call) ''status''),
                            (''updates'', JArr (map (JStr \<circ> fst) (u_props upd)))]])\<rparr>
                    else w);
              updatedCall =
                call1\<lparr>props := spread (spread (props call1) (u_props upd)) [(''updatedAt'', JDate now)],
                      transcript := (case u_transcript upd of Some t \<Rightarrow> t | None \<Rightarrow> transcript call1)\<rparr>;
              w2 = w1\<lparr>activeCalls := AList.update callId updatedCall (activeCalls w1)\<rparr>;
              listenUrl = opt (getp (u_props upd) ''monitor'') ''listenUrl''
          in if truthy listenUrl \<and> audioStreams w2 callId = None
             then setupAudioStreamWithRetry callId listenUrl 0 now w2
             else w2)"

text \<open>
  \<open>removeCall(callId, force = false)\<close>. Without \<open>force\<close> two checks can refuse: an
  active status, and a transcript that is not empty. The result is the returned
  boolean and the state.
\<close>

definition removeCall :: "jsval \<Rightarrow> bool \<Rightarrow> world \<Rightarrow> bool \<times> world" where
  "removeCall callId force w =
     (let blocked =
            (case getCall callId w of
               None \<Rightarrow> False
             | Some call \<Rightarrow>
                 (\<not> force \<and> getp (props call) ''status'' \<in>
                      {JStr ''ringing'', JStr ''in-progress'', JStr ''answered''})
                 \<or> (\<not> force \<and> transcript call \<noteq> []))
      in if blocked then (False, w)
         else
           let w1 = closeAudioStream callId w
           in (True, w1\<lparr>activeCalls := AList.delete callId (activeCalls w1),
                       callListeners := (callListeners w1)(callId := None),
                       retryAttempts := (retryAttempts w1)(callId := None),
                       callStateHistory := (callStateHistory w1)(callId := None)\<rparr>))"



subsection \<open>The two pairs of listener methods\<close>

text \<open>
  The class body defines \<open>addListener\<close> and \<open>removeListener\<close> twice: at lines 144 and 153
  the versions that count listeners on the entry, at lines 355 and 363 the versions
  that keep callbacks in \<open>callListeners\<close>. A class body is evaluated in order and a
  method definition assigns to the prototype, so a name resolves to its last
  definition.
\<close>

datatype methodDef =
    AddListener_count
  | RemoveListener_count
  | AddListener_callback
  | RemoveListener_callback

definition classBody :: "(string \<times> methodDef) list" where
  "classBody =
     [(''addListener'', AddListener_count), (''removeListener'', RemoveListener_count),
      (''addListener'', AddListener_callback), (''removeListener'', RemoveListener_callback)]"

definition resolveMethod :: "string \<Rightarrow> methodDef option" where
  "resolveMethod name = map_of (rev classBody) name"

text \<open>An argument the caller left out is \<open>undefined\<close>.\<close>

fun arg :: "jsval list \<Rightarrow> nat \<Rightarrow> jsval" where
  "arg [] n = Undefined"
| "arg (a # as) 0 = a"
| "arg (a # as) (Suc n) = arg as n"

text \<open>
  \<open>call.listenerCount || 0\<close> as a number. The property holds a number in every entry
  \<open>addCall\<close> made; another shape is read as 0 here.
\<close>

definition listenerCountOf :: "call \<Rightarrow> int" where
  "listenerCountOf c = (case getp (props c) ''listenerCount'' of JNum n \<Rightarrow> n | _ \<Rightarrow> 0)"

definition setListenerCount :: "jsval \<Rightarrow> call \<Rightarrow> int \<Rightarrow> world \<Rightarrow> world" where
  "setListenerCount callId c n w =
     w\<lparr>activeCalls := AList.update callId
          (c\<lparr>props := AList.update ''hasActiveListeners'' (JBool (n > 0))
                        (AList.update ''listenerCount'' (JNum n) (props c))\<rparr>)
          (activeCalls w)\<rparr>"

fun runMethod :: "methodDef \<Rightarrow> jsval list \<Rightarrow> world \<Rightarrow> world" where
  "runMethod AddListener_count args w =
     (case getCall (arg args 0) w of
        None \<Rightarrow> w
      | Some c \<Rightarrow> setListenerCount (arg args 0) c (listenerCountOf c + 1) w)"
| "runMethod RemoveListener_count args w =
     (case getCall (arg args 0) w of
        None \<Rightarrow> w
      | Some c \<Rightarrow> setListenerCount (arg args 0) c (max 0 (listenerCountOf c - 1)) w)"
| "runMethod AddListener_callback args w =
     w\<lparr>callListeners := (callListeners w)(arg args 0 \<mapsto>
          AList.update (arg args 1) (arg args 2)
            (case callListeners w (arg args 0) of None \<Rightarrow> [] | Some listeners \<Rightarrow> listeners))\<rparr>"
| "runMethod RemoveListener_callback args w =
     (case callListeners w (arg args 0) of
        None \<Rightarrow> w
      | Some listeners \<Rightarrow>
          let listeners1 = AList.delete (arg args 1) listeners
          in if listeners1 = [] then w\<lparr>callListeners := (callListeners w)(arg args 0 := None)\<rparr>
             else w\<lparr>callListeners := (callListeners w)(arg args 0 \<mapsto> listeners1)\<rparr>)"

text \<open>\<open>callMonitor.name(...args)\<close> for one of the two names.\<close>

definition callMethod :: "string \<Rightarrow> jsval list \<Rightarrow> world \<Rightarrow> world" where
  "callMethod name args w = (case resolveMethod name of None \<Rightarrow> w | Some m \<Rightarrow> runMethod m args w)"

datatype listenerCall = AddListener "jsval list" | RemoveListener "jsval list"

fun runListenerCall :: "listenerCall \<Rightarrow> world \<Rightarrow> world" where
  "runListenerCall (AddListener args) w = callMethod ''addListener'' args w"
| "runListenerCall (RemoveListener args) w = callMethod ''removeListener'' args w"

text \<open>The state of a freshly started process, with an environment in which nothing fails.\<close>

definition emptyWorld :: world where
  "emptyWorld =
     \<lparr>activeCalls = [], callListeners = Map.empty, audioStreams = Map.empty,
      retryAttempts = Map.empty, callStateHistory = Map.empty, sockets = [], timers = [],
      spawned = [], delivered = [], broadcasts = [], sseUpdates = [],
      activeCallsByPhone = [], campaigns = Map.empty, active_campaigns = [],
      campaign_queue = Map.empty, campaign_calls = Map.empty, conferences = Map.empty,
      wsConstructorError = (\<lambda>url. None),
      vapiCreateCall = (\<lambda>request. Inr [(''id'', JStr ''call-1''), (''status'', JStr ''queued'')]),
      development = False\<rparr>"

subsection \<open>What can happen to the monitor\<close>




text \<open>
  The bound on retries as a property of a state: every socket was made for attempt
  index at most \<open>maxRetries\<close>, every pending retry timer is for a retry numbered between
  1 and \<open>maxRetries\<close> and waits \<open>2 ^ (k - 1)\<close> seconds for retry \<open>k\<close>, and every recorded
  retry counter is between 1 and \<open>maxRetries\<close>.
\<close>

fun retryTimerOk :: "nat \<times> timer \<Rightarrow> bool" where
  "retryTimerOk (delay, AudioRetry callId listenUrl k) =
     (1 \<le> k \<and> k \<le> maxRetries \<and> delay = 2 ^ (k - 1) * 1000)"
| "retryTimerOk (delay, t) = True"

definition retryBounded :: "world \<Rightarrow> bool" where
  "retryBounded w =
     (list_all (\<lambda>sk. sk_retryCount sk \<le> maxRetries) (sockets w)
      \<and> list_all retryTimerOk (timers w)
      \<and> (\<forall>callId info. retryAttempts w callId = Some info \<longrightarrow>
            1 \<le> ri_count info \<and> ri_count info \<le> maxRetries))"

section \<open>The webhook controller (server/controllers/webhookController.js)\<close>

text \<open>
  \<open>broadcastToClients\<close> sends to the WebSocket clients; \<open>universalBroadcast\<close> sends there
  and to the SSE clients. Both are recorded as the lists of what was sent.
\<close>

definition broadcastToClients :: "obj \<Rightarrow> world \<Rightarrow> world" where
  "broadcastToClients msg w = w\<lparr>broadcasts := broadcasts w @ [msg]\<rparr>"

definition universalBroadcast :: "obj \<Rightarrow> world \<Rightarrow> world" where
  "universalBroadcast msg w = w\<lparr>broadcasts := broadcasts w @ [msg], sseUpdates := sseUpdates w @ [msg]\<rparr>"

text \<open>
  \<open>campaignController.updateCallStatus(callId, status, details)\<close> is an \<open>async\<close> function
  that the handlers call without \<open>await\<close>: the call is recorded, its body
  (\<open>updateCallStatus\<close> below) runs later.
\<close>

definition spawnUpdateCallStatus :: "jsval \<Rightarrow> string \<Rightarrow> obj \<Rightarrow> world \<Rightarrow> world" where
  "spawnUpdateCallStatus callId st details w =
     w\<lparr>spawned := spawned w @ [UpdateCallStatus callId st details]\<rparr>"

text \<open>
  callController.cleanupPhoneTracking. The keys of \<open>activeCallsByPhone\<close> are the
  formatted numbers, strings; another kind of value is no key of it.
\<close>

definition cleanupPhoneTracking :: "jsval \<Rightarrow> jsval \<Rightarrow> world \<Rightarrow> world" where
  "cleanupPhoneTracking callId phoneNumber w =
     (case phoneNumber of
        JStr p \<Rightarrow>
          (case map_of (activeCallsByPhone w) p of
             None \<Rightarrow> w
           | Some tracked \<Rightarrow>
               if p \<noteq> [] \<and> getp tracked ''callId'' = callId
               then w\<lparr>activeCallsByPhone := AList.delete p (activeCallsByPhone w)\<rparr>
               else w)
      | _ \<Rightarrow> w)"

text \<open>A registry entry passed whole as the update, as \<open>updateCall(call.id, callData)\<close> does.\<close>

definition asUpdates :: "call \<Rightarrow> updates" where
  "asUpdates c = \<lparr>u_props = props c, u_transcript = Some (transcript c)\<rparr>"

definition plainUpdate :: "obj \<Rightarrow> updates" where
  "plainUpdate ob = \<lparr>u_props = ob, u_transcript = None\<rparr>"

definition hasCallId :: "jsval \<Rightarrow> bool" where
  "hasCallId c = (truthy c \<and> truthy (opt c ''id''))"

text \<open>
  \<open>handleTranscriptEvent\<close>. \<open>callData\<close> is the entry as it was read at the start. When
  the status is neither \<open>in-progress\<close> nor \<open>answered\<close>, \<open>updateCall\<close> stores a new object
  with the status \<open>in-progress\<close>; \<open>callData\<close> still is the old one, and it is the old one,
  with the new transcript, that the last \<open>updateCall\<close> spreads over the entry.
\<close>

definition transcriptEntry :: "jsval \<Rightarrow> nat \<Rightarrow> obj" where
  "transcriptEntry webhookData now =
     [(''speaker'', if opt webhookData ''role'' = JStr ''assistant''
                    then JStr ''assistant'' else JStr ''customer''),
      (''text'', opt webhookData ''transcript''),
      (''transcriptType'', opt webhookData ''transcriptType''),
      (''timestamp'', JDate now),
      (''raw'', webhookData)]"

definition addTranscript :: "obj \<Rightarrow> obj list \<Rightarrow> obj list" where
  "addTranscript entry ts =
     (let ts1 =
        (if getp entry ''transcriptType'' = JStr ''partial'' then
           (if ts \<noteq> [] \<and> getp (last ts) ''speaker'' = getp entry ''speaker''
               \<and> getp (last ts) ''transcriptType'' = JStr ''partial''
            then butlast ts @ [entry]
            else ts @ [entry])
         else ts @ [entry])
      in if length ts1 > 100 then drop (length ts1 - 100) ts1 else ts1)"

definition handleTranscriptEvent :: "jsval \<Rightarrow> nat \<Rightarrow> world \<Rightarrow> world" where
  "handleTranscriptEvent webhookData now w =
     (let c = opt webhookData ''call'' in
      if \<not> hasCallId c then w
      else case getCall (opt c ''id'') w of
        None \<Rightarrow> w
      | Some callData \<Rightarrow>
          let st = getp (props callData) ''status'';
              answeredAt = js_or (getp (props callData) ''answeredAt'') (JDate now);
              w1 = (if st \<noteq> JStr ''in-progress'' \<and> st \<noteq> JStr ''answered'' then
                      universalBroadcast
                        [(''type'', JStr ''call_answered''),
                         (''call'', JObj (spread (asObj c)
                            [(''status'', JStr ''in-progress''), (''answeredAt'', answeredAt)]))]
                        (updateCall (opt c ''id'')
                           (plainUpdate [(''status'', JStr ''in-progress''), (''answeredAt'', answeredAt)])
                           now w)
                    else w);
              entry = transcriptEntry webhookData now;
              callData1 = callData\<lparr>transcript := addTranscript entry (transcript callData)\<rparr>;
              w2 = updateCall (opt c ''id'') (asUpdates callData1) now w1
          in broadcastToClients
               [(''type'', JStr ''transcript_update''), (''callId'', opt c ''id''),
                (''transcript'', JObj [(''speaker'', getp entry ''speaker''),
                   (''text'', opt webhookData ''transcript''),
                   (''transcriptType'', opt webhookData ''transcriptType''),
                   (''timestamp'', JDate now)])] w2)"

definition handleCallStarted :: "jsval \<Rightarrow> nat \<Rightarrow> world \<Rightarrow> world" where
  "handleCallStarted c now w =
     (if \<not> hasCallId c then w
      else universalBroadcast [(''type'', JStr ''call_started''), (''call'', c)]
             (addCall (spread (asObj c) [(''status'', JStr ''started''), (''startedAt'', JDate now)])
                now w))"

definition handleCallRinging :: "jsval \<Rightarrow> nat \<Rightarrow> world \<Rightarrow> world" where
  "handleCallRinging c now w =
     (if \<not> hasCallId c then w
      else broadcastToClients [(''type'', JStr ''call_ringing''), (''call'', c)]
             (updateCall (opt c ''id'')
                (plainUpdate [(''status'', JStr ''ringing''), (''ringingAt'', JDate now)]) now w))"

definition handleCallAnswered :: "jsval \<Rightarrow> nat \<Rightarrow> world \<Rightarrow> world" where
  "handleCallAnswered c now w =
     (if \<not> hasCallId c then w
      else broadcastToClients [(''type'', JStr ''call_answered''), (''call'', c)]
             (updateCall (opt c ''id'')
                (plainUpdate [(''status'', JStr ''in-progress''), (''answeredAt'', JDate now)]) now w))"

text \<open>\<open>Math.floor((new Date(endedAt) - new Date(answeredAt)) / 1000)\<close> and \<open>duration > 0\<close>.\<close>

definition durationSince :: "jsval \<Rightarrow> nat \<Rightarrow> jsval" where
  "durationSince answeredAt endedAt =
     (case dateMs answeredAt of None \<Rightarrow> JNaN | Some t \<Rightarrow> JNum ((int endedAt - t) div 1000))"

fun positive :: "jsval \<Rightarrow> bool" where
  "positive (JNum n) = (n > 0)"
| "positive v = False"

definition campaignIdOf :: "jsval \<Rightarrow> jsval" where
  "campaignIdOf c = opt (opt (opt c ''customer'') ''metadata'') ''campaignId''"

definition handleCallEnded :: "jsval \<Rightarrow> nat \<Rightarrow> world \<Rightarrow> world" where
  "handleCallEnded c now w =
     (if \<not> hasCallId c then w
      else
        let callData = getCall (opt c ''id'') w in
        if (case callData of None \<Rightarrow> False
            | Some cd \<Rightarrow> truthy (getp (props cd) ''hasActiveListeners'')) then w
        else
          let answeredAt = (case callData of None \<Rightarrow> Undefined
                            | Some cd \<Rightarrow> getp (props cd) ''answeredAt'');
              duration = (if truthy answeredAt then durationSince answeredAt now else JNum 0);
              w1 = updateCall (opt c ''id'')
                     (plainUpdate
                        [(''status'', JStr ''ended''), (''endedAt'', JDate now), (''duration'', duration),
                         (''endReason'', js_or (opt c ''endReason'') (JStr ''unknown'')),
                         (''wasAnswered'', JBool (positive duration)),
                         (''cleanupPending'', JBool True)]) now w;
              w2 = (if truthy (campaignIdOf c)
                    then spawnUpdateCallStatus (opt c ''id'') ''completed''
                           [(''duration'', duration), (''endReason'', opt c ''endReason'')] w1
                    else w1)
          in w2\<lparr>timers := timers w2 @
                 [(if development w2 then 600000 else 300000, EndedCleanup c duration now)]\<rparr>)"

definition handleCallFailed :: "jsval \<Rightarrow> nat \<Rightarrow> world \<Rightarrow> world" where
  "handleCallFailed c now w =
     (if \<not> hasCallId c then w
      else
        let failureReason = js_or (opt c ''failureReason'') (JStr ''unknown'');
            w1 = updateCall (opt c ''id'')
                   (plainUpdate [(''status'', JStr ''failed''), (''failedAt'', JDate now),
                                 (''failureReason'', failureReason)]) now w;
            w2 = (if truthy (campaignIdOf c)
                  then spawnUpdateCallStatus (opt c ''id'') ''failed''
                         [(''failureReason'', opt c ''failureReason'')] w1
                  else w1);
            w3 = broadcastToClients
                   [(''type'', JStr ''call_failed''),
                    (''call'', JObj (spread (asObj c)
                       [(''failedAt'', JDate now), (''failureReason'', failureReason)]))] w2;
            w4 = (if truthy (opt (opt c ''customer'') ''number'')
                  then cleanupPhoneTracking (opt c ''id'') (opt (opt c ''customer'') ''number'') w3
                  else w3)
        in w4\<lparr>timers := timers w4 @
               [(if development w4 then 15000 else 2000, FailedRemoval (opt c ''id''))]\<rparr>)"

text \<open>
  \<open>handleStatusUpdate\<close>. The transition is pushed onto the entry's own
  \<open>statusHistory\<close> array first; the branch for the reported status runs the handler of
  that status (the first component of \<open>branch\<close> says whether \<open>updates.answeredAt\<close> was
  set); last, \<open>updateCall\<close> is called with the reported status, whatever it is.
\<close>

definition answeredStatuses :: "jsval list" where
  "answeredStatuses =
     [JStr ''in-progress'', JStr ''answered'', JStr ''active'', JStr ''connected'',
      JStr ''conversation-started'']"

definition handleStatusUpdate :: "jsval \<Rightarrow> nat \<Rightarrow> world \<Rightarrow> world" where
  "handleStatusUpdate c now w =
     (if \<not> hasCallId c then w
      else
        let callId = opt c ''id'';
            st = opt c ''status'';
            currentCall = getCall callId w;
            w1 = (case currentCall of
                    Some cur \<Rightarrow>
                      w\<lparr>activeCalls := AList.update callId
                           (cur\<lparr>statusHistory := statusHistory cur @
                              [[(''from'', getp (props cur) ''status''), (''to'', st),
                                (''timestamp'', JDate now)]]\<rparr>)
                           (activeCalls w)\<rparr>
                  | None \<Rightarrow>
                      addCall (spread (asObj c)
                        [(''addedAt'', JDate now), (''extendedMonitoring'', JBool True)]) now w);
            branch =
              (if st \<in> set answeredStatuses then (True, handleCallAnswered c now w1)
               else if st = JStr ''ringing'' then (False, handleCallRinging c now w1)
               else if st = JStr ''queued'' then (False, w1)
               else if st = JStr ''failed'' then (False, handleCallFailed c now w1)
               else if st = JStr ''ended'' then (False, handleCallEnded c now w1)
               else if truthy st \<and> st \<notin> {JStr ''queued'', JStr ''ringing'', JStr ''failed'',
                                           JStr ''ended'', JStr ''no-answer''}
                 then (True, handleCallAnswered c now w1)
               else (False, w1));
            w3 = updateCall callId
                   (plainUpdate ([(''status'', st), (''updatedAt'', JDate now)] @
                      (if fst branch then [(''answeredAt'', JDate now)] else []))) now (snd branch)
        in broadcastToClients
             [(''type'', JStr ''call_status_update''), (''callId'', callId), (''status'', st),
              (''previousStatus'',
                 (case currentCall of None \<Rightarrow> Undefined | Some cur \<Rightarrow> getp (props cur) ''status'')),
              (''timestamp'', JDate now),
              (''statusHistory'',
                 (case currentCall of
                    None \<Rightarrow> Undefined
                  | Some cur \<Rightarrow>
                      (case getCall callId w3 of
                         None \<Rightarrow> Undefined
                       | Some e \<Rightarrow> JArr (map JObj (statusHistory e)))))] w3)"

text \<open>
  \<open>handleCallNoAnswer\<close>. With an entry that has \<open>answeredAt\<close> or a transcript the handler
  returns after logging the mismatch, before anything is written.
\<close>

definition hasAnswerIndicators :: "call \<Rightarrow> bool" where
  "hasAnswerIndicators cd = (truthy (getp (props cd) ''answeredAt'') \<or> transcript cd \<noteq> [])"

definition handleCallNoAnswer :: "jsval \<Rightarrow> nat \<Rightarrow> world \<Rightarrow> world" where
  "handleCallNoAnswer c now w =
     (if \<not> hasCallId c then w
      else if (case getCall (opt c ''id'') w of None \<Rightarrow> False | Some cd \<Rightarrow> hasAnswerIndicators cd)
      then w
      else
        let w1 = updateCall (opt c ''id'')
                   (plainUpdate [(''status'', JStr ''no-answer''), (''endedAt'', JDate now),
                                 (''endReason'', JStr ''no-answer''), (''wasAnswered'', JBool False)])
                   now w;
            w2 = (if truthy (campaignIdOf c)
                  then spawnUpdateCallStatus (opt c ''id'') ''no-answer''
                         [(''endReason'', JStr ''no-answer'')] w1
                  else w1);
            w3 = broadcastToClients
                   [(''type'', JStr ''call_no_answer''),
                    (''call'', JObj (spread (asObj c)
                       [(''status'', JStr ''no-answer''), (''endedAt'', JDate now)]))] w2;
            w4 = (if truthy (opt (opt c ''customer'') ''number'')
                  then cleanupPhoneTracking (opt c ''id'') (opt (opt c ''customer'') ''number'') w3
                  else w3)
        in w4\<lparr>timers := timers w4 @
               [(if development w4 then 300000 else 180000, NoAnswerRemoval (opt c ''id''))]\<rparr>)"

text \<open>The callback of the timer that \<open>handleCallNoAnswer\<close> registers.\<close>

definition noAnswerRemovalTimer :: "jsval \<Rightarrow> world \<Rightarrow> world" where
  "noAnswerRemovalTimer callId w =
     (if (case getCall callId w of None \<Rightarrow> False | Some cd \<Rightarrow> hasAnswerIndicators cd) then w
      else
        let r = removeCall callId False w
        in if fst r
           then broadcastToClients
                  [(''type'', JStr ''call_removed_from_monitor''), (''callId'', callId),
                   (''reason'', JStr ''no_answer_cleanup_after_extended_delay'')] (snd r)
           else snd r)"

text \<open>
  The callbacks of the timers that \<open>handleCallEnded\<close> registers. The first one, after 5
  minutes (10 in development), broadcasts \<open>call_ended\<close>, clears the phone tracking of the
  call and starts the second; the second removes the call from the monitor, or waits
  another 5 minutes when the entry has active listeners.
\<close>

definition endedCleanupTimer :: "jsval \<Rightarrow> jsval \<Rightarrow> nat \<Rightarrow> world \<Rightarrow> world" where
  "endedCleanupTimer c duration endedAt w =
     (let w1 = universalBroadcast
                 [(''type'', JStr ''call_ended''),
                  (''call'', JObj (spread (asObj c)
                     [(''duration'', duration), (''endedAt'', JDate endedAt),
                      (''wasAnswered'', JBool (positive duration))]))] w;
          w2 = (if truthy (opt (opt c ''customer'') ''number'')
                then cleanupPhoneTracking (opt c ''id'') (opt (opt c ''customer'') ''number'') w1
                else w1)
      in w2\<lparr>timers := timers w2 @
             [(if development w2 then 900000 else 600000, EndedRemoval (opt c ''id''))]\<rparr>)"

definition cleanupTime :: "world \<Rightarrow> int" where
  "cleanupTime w = (if development w then 600000 + 900000 else 300000 + 600000)"

definition endedRemovalTimer :: "jsval \<Rightarrow> world \<Rightarrow> world" where
  "endedRemovalTimer callId w =
     (if (case getCall callId w of None \<Rightarrow> False
          | Some cd \<Rightarrow> truthy (getp (props cd) ''hasActiveListeners''))
      then w\<lparr>timers := timers w @ [(300000, EndedRecheck callId)]\<rparr>
      else
        let r = removeCall callId True w
        in if fst r
           then broadcastToClients
                  [(''type'', JStr ''call_removed_from_monitor''), (''callId'', callId),
                   (''reason'', JStr ''cleanup_complete_extended''),
                   (''totalCleanupTime'', JNum (cleanupTime w))] (snd r)
           else snd r)"

definition endedRecheckTimer :: "jsval \<Rightarrow> world \<Rightarrow> world" where
  "endedRecheckTimer callId w =
     (if (case getCall callId w of None \<Rightarrow> False
          | Some cd \<Rightarrow> \<not> truthy (getp (props cd) ''hasActiveListeners''))
      then broadcastToClients
             [(''type'', JStr ''call_removed_from_monitor''), (''callId'', callId),
              (''reason'', JStr ''cleanup_complete_delayed''),
              (''totalCleanupTime'', JNum (cleanupTime w + 300000))]
             (snd (removeCall callId True w))
      else w)"

text \<open>The callback of the timer that \<open>handleCallFailed\<close> registers.\<close>

definition failedRemovalTimer :: "jsval \<Rightarrow> world \<Rightarrow> world" where
  "failedRemovalTimer callId w =
     (let r = removeCall callId True w
      in if fst r
         then broadcastToClients
                [(''type'', JStr ''call_removed_from_monitor''), (''callId'', callId),
                 (''reason'', JStr ''failed_cleanup''),
                 (''delayUsed'', JNum (if development w then 15000 else 2000))] (snd r)
         else snd r)"

section \<open>Phone numbers (server/utils/validators.js)\<close>

definition isDigit :: "char \<Rightarrow> bool" where
  "isDigit ch = (ch \<in> set ''0123456789'')"

text \<open>\<open>formatToE164(phone)\<close> with the default country code \<open>'1'\<close>; \<open>None\<close> is its \<open>null\<close>.\<close>

definition formatToE164 :: "string \<Rightarrow> string option" where
  "formatToE164 phone =
     (let cleaned = filter isDigit phone in
      if length cleaned = 10 then Some (''+1'' @ cleaned)
      else if length cleaned = 11 \<and> hd cleaned = CHR ''1'' then Some (''+'' @ cleaned)
      else if length cleaned > 10 then Some (''+'' @ cleaned)
      else None)"

section \<open>The call controller (server/controllers/callController.js)\<close>

text \<open>
  The body of \<open>POST /api/calls/create\<close>. The names are strings when the body has them.
  An HTTP answer is its status code and JSON body; \<open>NoResponse\<close> is a request that is
  never answered.
\<close>

record createRequest =
  cr_phone_number :: string
  cr_first_name :: "string option"
  cr_last_name :: "string option"
  cr_metadata :: jsval

datatype response = Response nat obj | NoResponse

definition strOrEmpty :: "string option \<Rightarrow> jsval" where
  "strOrEmpty s = (case s of Some x \<Rightarrow> JStr x | None \<Rightarrow> JStr [])"

definition strOrUndefined :: "string option \<Rightarrow> jsval" where
  "strOrUndefined s = (case s of Some x \<Rightarrow> JStr x | None \<Rightarrow> Undefined)"

definition isSpace :: "char \<Rightarrow> bool" where
  "isSpace ch = (ch \<in> set [CHR '' '', CHR 0x09, CHR 0x0A, CHR 0x0B, CHR 0x0C, CHR 0x0D])"

text \<open>\<open>`${first_name} ${last_name}`.trim()\<close>: a missing name prints as \<open>undefined\<close>.\<close>

definition fullName :: "createRequest \<Rightarrow> string" where
  "fullName req =
     (let printed = (\<lambda>s. case s of Some x \<Rightarrow> x | None \<Rightarrow> ''undefined'');
          joined = printed (cr_first_name req) @ '' '' @ printed (cr_last_name req)
      in rev (dropWhile isSpace (rev (dropWhile isSpace joined))))"

definition dedupStatuses :: "jsval set" where
  "dedupStatuses = {JStr ''queued'', JStr ''ringing'', JStr ''in-progress''}"

text \<open>The three ids \<open>createCall\<close> reads from the metadata.\<close>

definition convosoLeadId :: "jsval \<Rightarrow> jsval" where
  "convosoLeadId metadata =
     js_or (opt metadata ''convoso_id'') (js_or (opt metadata ''lead_id'') (js_or (opt metadata ''convosoId'') Null))"

definition bridgeLegalId :: "jsval \<Rightarrow> jsval" where
  "bridgeLegalId metadata = js_or (opt metadata ''leadId'') (js_or (opt metadata ''bridgeLegalId'') Null)"

definition organizationId :: "jsval \<Rightarrow> jsval" where
  "organizationId metadata = js_or (opt metadata ''organizationId'') (JStr ''1'')"

text \<open>What \<open>createCall\<close> sends to \<open>vapiService.createCall\<close>.\<close>

definition vapiRequest :: "createRequest \<Rightarrow> string \<Rightarrow> obj" where
  "vapiRequest req formattedPhone =
     (let metadata = cr_metadata req;
          convosoLeadId = convosoLeadId metadata;
          bridgeLegalId = bridgeLegalId metadata;
          organizationId = organizationId metadata
      in [(''phone_number'', JStr formattedPhone),
          (''first_name'', strOrEmpty (cr_first_name req)),
          (''last_name'', strOrEmpty (cr_last_name req)),
          (''lead_source'', opt metadata ''source''),
          (''case_type'', opt metadata ''leadType''),
          (''organizationid'', organizationId),
          (''leadid'', bridgeLegalId),
          (''convoso_id'', convosoLeadId),
          (''metadata'', JObj (spread (asObj metadata)
              [(''lead_id'', convosoLeadId), (''convoso_id'', convosoLeadId),
               (''bridge_legal_id'', bridgeLegalId), (''organization_id'', organizationId)]))])"

text \<open>The object \<open>createCall\<close> hands to \<open>callMonitor.addCall\<close>.\<close>

definition monitoredCall :: "createRequest \<Rightarrow> obj \<Rightarrow> bool \<Rightarrow> obj" where
  "monitoredCall req callData dev =
     (let metadata = cr_metadata req;
          convosoLeadId = convosoLeadId metadata;
          bridgeLegalId = bridgeLegalId metadata;
          organizationId = organizationId metadata
      in spread callData
           [(''customer'', JObj (spread (asObj (getp callData ''customer''))
               [(''name'', JStr (fullName req)),
                (''metadata'', JObj (spread (asObj metadata)
                   [(''first_name'', strOrUndefined (cr_first_name req)),
                    (''last_name'', strOrUndefined (cr_last_name req)),
                    (''leadSource'', opt metadata ''source''),
                    (''caseType'', opt metadata ''leadType''),
                    (''organizationId'', organizationId),
                    (''leadId'', bridgeLegalId),
                    (''lead_id'', convosoLeadId),
                    (''convoso_id'', convosoLeadId),
                    (''bridge_legal_id'', bridgeLegalId)]))])),
            (''contact'', JObj
               [(''first_name'', strOrUndefined (cr_first_name req)),
                (''last_name'', strOrUndefined (cr_last_name req)),
                (''lead_source'', opt metadata ''source''),
                (''case_type'', opt metadata ''leadType''),
                (''organizationid'', organizationId),
                (''leadid'', bridgeLegalId),
                (''convoso_id'', convosoLeadId)]),
            (''extendedMonitoring'', JBool True),
            (''debugMode'', JBool dev)])"

text \<open>
  The \<open>call\<close> of the \<open>call_created\<close> broadcast; \<open>n\<close> is \<open>activeCallsByPhone.size\<close> at that
  moment.
\<close>

definition createdCall :: "createRequest \<Rightarrow> obj \<Rightarrow> nat \<Rightarrow> obj" where
  "createdCall req callData n =
     (let metadata = cr_metadata req
      in spread callData
           [(''customer'', JObj (spread (asObj (getp callData ''customer''))
               [(''name'', JStr (fullName req)),
                (''metadata'', JObj (spread (asObj metadata)
                   [(''first_name'', strOrUndefined (cr_first_name req)),
                    (''last_name'', strOrUndefined (cr_last_name req)),
                    (''firstName'', strOrUndefined (cr_first_name req)),
                    (''lastName'', strOrUndefined (cr_last_name req)),
                    (''fullName'', JStr (fullName req)),
                    (''leadSource'', js_or (opt metadata ''source'') (JStr ''Direct'')),
                    (''caseType'', opt metadata ''leadType''),
                    (''organizationId'', organizationId metadata),
                    (''leadId'', bridgeLegalId metadata),
                    (''lead_id'', convosoLeadId metadata),
                    (''convoso_id'', convosoLeadId metadata),
                    (''bridge_legal_id'', bridgeLegalId metadata)]))])),
            (''metadata'', JObj (spread (asObj metadata)
               [(''firstName'', strOrUndefined (cr_first_name req)),
                (''lastName'', strOrUndefined (cr_last_name req)),
                (''fullName'', JStr (fullName req)),
                (''leadSource'', js_or (opt metadata ''source'') (JStr ''Direct'')),
                (''caseType'', opt metadata ''leadType''),
                (''lead_id'', convosoLeadId metadata),
                (''convoso_id'', convosoLeadId metadata),
                (''bridge_legal_id'', bridgeLegalId metadata)])),
            (''contact'', JObj
               [(''first_name'', strOrUndefined (cr_first_name req)),
                (''last_name'', strOrUndefined (cr_last_name req)),
                (''lead_source'', opt metadata ''source''),
                (''case_type'', opt metadata ''leadType''),
                (''organizationid'', organizationId metadata),
                (''leadid'', bridgeLegalId metadata),
                (''convoso_id'', convosoLeadId metadata)]),
            (''activeCallsByPhone'', JNum (int n))])"

text \<open>The entry \<open>createCall\<close> puts into \<open>activeCallsByPhone\<close> for the formatted number.\<close>

definition trackedEntry :: "createRequest \<Rightarrow> string \<Rightarrow> obj \<Rightarrow> nat \<Rightarrow> obj" where
  "trackedEntry req formattedPhone callData now =
     [(''callId'', getp callData ''id''),
      (''createdAt'', JDate now),
      (''customer'', JObj [(''first_name'', strOrUndefined (cr_first_name req)),
                           (''last_name'', strOrUndefined (cr_last_name req)),
                           (''phone'', JStr formattedPhone)]),
      (''convosoLeadId'', convosoLeadId (cr_metadata req))]"

text \<open>
  Lines 508 to 511: the tracked entry for the number together with its call, when that
  call is in the registry with one of the three statuses.
\<close>

definition activeCallTo :: "string \<Rightarrow> world \<Rightarrow> (obj \<times> call) option" where
  "activeCallTo formattedPhone w =
     (case map_of (activeCallsByPhone w) formattedPhone of
        None \<Rightarrow> None
      | Some existingCall \<Rightarrow>
          (case getCall (getp existingCall ''callId'') w of
             None \<Rightarrow> None
           | Some c \<Rightarrow>
               if getp (props c) ''status'' \<in> dedupStatuses then Some (existingCall, c) else None))"

text \<open>A string value inside a template literal.\<close>

fun inTemplate :: "jsval \<Rightarrow> string" where
  "inTemplate (JStr x) = x"
| "inTemplate v = ''undefined''"

definition alreadyActiveTo :: "string \<Rightarrow> obj \<Rightarrow> call \<Rightarrow> response" where
  "alreadyActiveTo formattedPhone existingCall c =
     Response 409
       [(''error'', JStr ''Call already active to this number''),
        (''existingCallId'', getp existingCall ''callId''),
        (''existingCallStatus'', getp (props c) ''status''),
        (''message'', JStr (''A call is already '' @ inTemplate (getp (props c) ''status'') @ '' for ''
                            @ formattedPhone @ ''. Please wait for the current call to complete.''))]"

definition callCreated :: "createRequest \<Rightarrow> string \<Rightarrow> obj \<Rightarrow> nat \<Rightarrow> response" where
  "callCreated req formattedPhone callData n =
     Response 200
       [(''success'', JBool True),
        (''call'', JObj callData),
        (''deduplicationInfo'', JObj [(''phoneNumber'', JStr formattedPhone),
                                      (''activeCallsCount'', JNum (int n))]),
        (''leadIds'', JObj [(''convoso_id'', convosoLeadId (cr_metadata req)),
                            (''bridge_legal_id'', bridgeLegalId (cr_metadata req))])]"

text \<open>
  \<open>exports.createCall\<close>. The check for a call already active to the number comes after
  the two validations and before anything is created; an entry whose call is not
  active any more is deleted there. When \<open>vapiService.createCall\<close> throws, the \<open>catch\<close>
  block reads \<open>formattedPhone\<close>, a \<open>const\<close> of the \<open>try\<close> block that is not in scope
  there: the block itself throws and the handler sends no answer.
\<close>

definition createCall :: "createRequest \<Rightarrow> nat \<Rightarrow> world \<Rightarrow> response \<times> world" where
  "createCall req now w =
     (if \<not> truthy (opt (cr_metadata req) ''assistantType'') then
        (Response 400
           [(''error'', JStr ''Please select an assistant''),
            (''message'', JStr ''An AI assistant must be selected before making a call'')], w)
      else case formatToE164 (cr_phone_number req) of
        None \<Rightarrow> (Response 400 [(''error'', JStr ''Invalid phone number format'')], w)
      | Some formattedPhone \<Rightarrow>
          (case activeCallTo formattedPhone w of
             Some (existingCall, c) \<Rightarrow> (alreadyActiveTo formattedPhone existingCall c, w)
           | None \<Rightarrow>
               let w1 = (if map_of (activeCallsByPhone w) formattedPhone = None then w
                         else w\<lparr>activeCallsByPhone := AList.delete formattedPhone (activeCallsByPhone w)\<rparr>)
               in case vapiCreateCall w1 (vapiRequest req formattedPhone) of
                    Inl message \<Rightarrow> (NoResponse, w1)
                  | Inr callData \<Rightarrow>
                      let w2 = w1\<lparr>activeCallsByPhone :=
                                    AList.update formattedPhone (trackedEntry req formattedPhone callData now)
                                      (activeCallsByPhone w1)\<rparr>;
                          w3 = addCall (monitoredCall req callData (development w2)) now w2;
                          w4 = broadcastToClients
                                 [(''type'', JStr ''call_created''),
                                  (''call'', JObj (createdCall req callData (length (activeCallsByPhone w3))))]
                                 w3
                      in (callCreated req formattedPhone callData (length (activeCallsByPhone w4)), w4)))"

section \<open>The shared store (server/services/redisService.js)\<close>

text \<open>
  The Redis operations the campaign code uses, on the fields of \<open>world\<close> that stand for
  the keys. Every operation succeeds: a lost connection is not modelled. The order in
  which \<open>sMembers\<close> lists the set \<open>active_campaigns\<close> is not specified by Redis; here it
  is the order of the list.
\<close>

record campaignUpdates =
  cu_status :: "string option"
  cu_stats :: "stats option"
  cu_currentBatch :: "int option"
  cu_extra :: obj

definition noUpdates :: campaignUpdates where
  "noUpdates = \<lparr>cu_status = None, cu_stats = None, cu_currentBatch = None, cu_extra = []\<rparr>"

definition saveCampaign :: "string \<Rightarrow> campaign \<Rightarrow> world \<Rightarrow> world" where
  "saveCampaign campaignId campaignData w =
     w\<lparr>campaigns := (campaigns w)(campaignId \<mapsto> campaignData),
       active_campaigns := List.insert campaignId (active_campaigns w)\<rparr>"

definition getCampaign :: "string \<Rightarrow> world \<Rightarrow> campaign option" where
  "getCampaign campaignId w = campaigns w campaignId"

text \<open>\<open>{...campaign, ...updates}\<close> on the typed record.\<close>

definition applyCampaignUpdates :: "campaign \<Rightarrow> campaignUpdates \<Rightarrow> campaign" where
  "applyCampaignUpdates cp u =
     cp\<lparr>cp_status := (case cu_status u of Some s \<Rightarrow> s | None \<Rightarrow> cp_status cp),
        cp_stats := (case cu_stats u of Some s \<Rightarrow> s | None \<Rightarrow> cp_stats cp),
        cp_currentBatch := (case cu_currentBatch u of Some b \<Rightarrow> b | None \<Rightarrow> cp_currentBatch cp),
        cp_extra := spread (cp_extra cp) (cu_extra u)\<rparr>"

text \<open>
  The campaign as the JSON object it is stored and sent as; the keys kept in \<open>cp_extra\<close>
  come last.
\<close>

definition statsObj :: "stats \<Rightarrow> obj" where
  "statsObj st =
     [(''total'', JNum (st_total st)), (''completed'', JNum (st_completed st)),
      (''failed'', JNum (st_failed st)), (''inProgress'', JNum (st_inProgress st)),
      (''queued'', JNum (st_queued st))]"

definition campaignObj :: "campaign \<Rightarrow> obj" where
  "campaignObj cp =
     [(''id'', JStr (cp_id cp)), (''name'', cp_name cp), (''callDelay'', JNum (cp_callDelay cp)),
      (''maxConcurrent'', JNum (int (cp_maxConcurrent cp))), (''stats'', JObj (statsObj (cp_stats cp))),
      (''status'', JStr (cp_status cp)), (''currentBatch'', JNum (cp_currentBatch cp))]
     @ cp_extra cp"

definition campaignJson :: "campaign option \<Rightarrow> jsval" where
  "campaignJson c = (case c of None \<Rightarrow> Null | Some cp \<Rightarrow> JObj (campaignObj cp))"

text \<open>
  \<open>updateCampaign\<close> throws \<open>Campaign not found\<close> (here \<open>None\<close>) when the key is missing and
  returns the updated record otherwise.
\<close>

definition updateCampaign :: "string \<Rightarrow> campaignUpdates \<Rightarrow> world \<Rightarrow> campaign option \<times> world" where
  "updateCampaign campaignId u w =
     (case getCampaign campaignId w of
        None \<Rightarrow> (None, w)
      | Some cp \<Rightarrow>
          (Some (applyCampaignUpdates cp u),
           saveCampaign campaignId (applyCampaignUpdates cp u) w))"

definition deleteCampaign :: "string \<Rightarrow> world \<Rightarrow> world" where
  "deleteCampaign campaignId w =
     w\<lparr>campaigns := (campaigns w)(campaignId := None),
       active_campaigns := removeAll campaignId (active_campaigns w),
       campaign_queue := (campaign_queue w)(campaignId := None)\<rparr>"

definition getAllCampaigns :: "world \<Rightarrow> campaign list" where
  "getAllCampaigns w = List.map_filter (\<lambda>campaignId. getCampaign campaignId w) (active_campaigns w)"

definition saveCampaignQueue :: "string \<Rightarrow> contact list \<Rightarrow> world \<Rightarrow> world" where
  "saveCampaignQueue campaignId contacts w =
     w\<lparr>campaign_queue := (campaign_queue w)(campaignId :=
          (if contacts = [] then None else Some contacts))\<rparr>"

text \<open>\<open>lPop\<close>: the head of the list, and a list that becomes empty is no key any more.\<close>

definition getNextContact :: "string \<Rightarrow> world \<Rightarrow> contact option \<times> world" where
  "getNextContact campaignId w =
     (case campaign_queue w campaignId of
        None \<Rightarrow> (None, w)
      | Some [] \<Rightarrow> (None, w)
      | Some (x # rest) \<Rightarrow>
          (Some x, w\<lparr>campaign_queue := (campaign_queue w)(campaignId :=
                       (if rest = [] then None else Some rest))\<rparr>))"

definition getQueueLength :: "string \<Rightarrow> world \<Rightarrow> nat" where
  "getQueueLength campaignId w =
     (case campaign_queue w campaignId of None \<Rightarrow> 0 | Some q \<Rightarrow> length q)"

definition addCallToCampaign :: "string \<Rightarrow> jsval \<Rightarrow> obj \<Rightarrow> world \<Rightarrow> world" where
  "addCallToCampaign campaignId callId callData w =
     w\<lparr>campaign_calls := (campaign_calls w)(campaignId \<mapsto>
          AList.update callId callData
            (case campaign_calls w campaignId of None \<Rightarrow> [] | Some calls \<Rightarrow> calls))\<rparr>"

definition getCampaignCalls :: "string \<Rightarrow> world \<Rightarrow> (jsval \<times> obj) list" where
  "getCampaignCalls campaignId w =
     (case campaign_calls w campaignId of None \<Rightarrow> [] | Some calls \<Rightarrow> calls)"

section \<open>The campaign controller (server/controllers/campaignController.js)\<close>

text \<open>
  \<open>updateCallStatus(callId, status, details)\<close>, the body that a started
  \<open>UpdateCallStatus\<close> task runs, taken as one step: the first campaign whose call hash
  has the call gets the result stored and its statistics counted, once per run.
  \<open>recordCallStatus\<close> is the body of \<open>if (calls[callId])\<close>; nothing in it looks whether the
  call was counted before.
\<close>

definition countStatus :: "string \<Rightarrow> stats \<Rightarrow> stats" where
  "countStatus st s =
     (if st = ''completed'' then
        s\<lparr>st_completed := st_completed s + 1, st_inProgress := max 0 (st_inProgress s - 1)\<rparr>
      else if st = ''failed'' \<or> st = ''no-answer'' \<or> st = ''busy'' then
        s\<lparr>st_failed := st_failed s + 1, st_inProgress := max 0 (st_inProgress s - 1)\<rparr>
      else s)"

definition recordCallStatus ::
  "campaign \<Rightarrow> jsval \<Rightarrow> obj \<Rightarrow> string \<Rightarrow> obj \<Rightarrow> nat \<Rightarrow> world \<Rightarrow> world" where
  "recordCallStatus cp callId result st details now w =
     (let result1 = spread result
            [(''status'', JStr st), (''endTime'', JDate now), (''details'', JObj details)];
          w1 = addCallToCampaign (cp_id cp) callId result1 w;
          w2 = snd (updateCampaign (cp_id cp)
                      (noUpdates\<lparr>cu_stats := Some (countStatus st (cp_stats cp))\<rparr>) w1)
      in if getCampaign (cp_id cp) w1 = None then w1
         else broadcastToClients
                [(''type'', JStr ''campaign_update''), (''campaignId'', JStr (cp_id cp)),
                 (''campaign'', campaignJson (getCampaign (cp_id cp) w2))] w2)"

fun updateCallStatusIn :: "campaign list \<Rightarrow> jsval \<Rightarrow> string \<Rightarrow> obj \<Rightarrow> nat \<Rightarrow> world \<Rightarrow> world" where
  "updateCallStatusIn [] callId st details now w = w"
| "updateCallStatusIn (cp # rest) callId st details now w =
     (case map_of (getCampaignCalls (cp_id cp) w) callId of
        None \<Rightarrow> updateCallStatusIn rest callId st details now w
      | Some result \<Rightarrow> recordCallStatus cp callId result st details now w)"

definition updateCallStatus :: "jsval \<Rightarrow> string \<Rightarrow> obj \<Rightarrow> nat \<Rightarrow> world \<Rightarrow> world" where
  "updateCallStatus callId st details now w =
     updateCallStatusIn (getAllCampaigns w) callId st details now w"

text \<open>The started \<open>UpdateCallStatus\<close> tasks run, in the order in which they were started.\<close>

fun runStatusUpdate :: "nat \<Rightarrow> task \<Rightarrow> world \<Rightarrow> world" where
  "runStatusUpdate now (UpdateCallStatus callId st details) w = updateCallStatus callId st details now w"
| "runStatusUpdate now (RunCampaign campaignId) w = w\<lparr>spawned := spawned w @ [RunCampaign campaignId]\<rparr>"

definition runStatusUpdates :: "nat \<Rightarrow> world \<Rightarrow> world" where
  "runStatusUpdates now w = fold (runStatusUpdate now) (spawned w) (w\<lparr>spawned := []\<rparr>)"

subsection \<open>Starting a campaign and draining its queue\<close>

text \<open>
  The body of \<open>POST /api/campaigns/start\<close>. \<open>sr_scheduleTime\<close> is the instant the
  request asks for, \<open>None\<close> when the body has no schedule time (a schedule time that does
  not parse as a date is not modelled).
\<close>

record startRequest =
  sr_id :: string
  sr_name :: jsval
  sr_contacts :: "contact list"
  sr_callDelay :: int
  sr_maxConcurrent :: nat
  sr_scheduleTime :: "nat option"

definition newCampaign :: "startRequest \<Rightarrow> nat \<Rightarrow> campaign" where
  "newCampaign req now =
     \<lparr>cp_id = sr_id req, cp_name = sr_name req, cp_status = ''active'',
      cp_callDelay = sr_callDelay req * 1000, cp_maxConcurrent = sr_maxConcurrent req,
      cp_stats = \<lparr>st_total = int (length (sr_contacts req)), st_completed = 0, st_failed = 0,
                  st_inProgress = 0, st_queued = int (length (sr_contacts req))\<rparr>,
      cp_currentBatch = 0,
      cp_extra = [(''totalContacts'', JNum (int (length (sr_contacts req))))] @
                 (case sr_scheduleTime req of None \<Rightarrow> [] | Some t \<Rightarrow> [(''scheduleTime'', JDate t)]) @
                 [(''startTime'', JDate now), (''callResults'', JArr [])]\<rparr>"

definition alreadyActive :: response where
  "alreadyActive =
     Response 400
       [(''error'', JStr ''A campaign is already in progress. Please stop it before starting a new one.'')]"

definition campaignScheduled :: "startRequest \<Rightarrow> nat \<Rightarrow> response" where
  "campaignScheduled req now =
     Response 200
       [(''message'', JStr ''Campaign scheduled successfully''),
        (''campaign'', JObj (campaignObj ((newCampaign req now)\<lparr>cp_status := ''scheduled''\<rparr>)))]"

definition campaignStarted :: "startRequest \<Rightarrow> nat \<Rightarrow> response" where
  "campaignStarted req now =
     Response 200
       [(''message'', JStr ''Campaign started successfully''),
        (''campaign'', JObj (campaignObj (newCampaign req now)))]"

text \<open>
  \<open>exports.startCampaign\<close>. The check for a running campaign is the first thing done,
  before any write. \<open>executeCampaign(id)\<close> is started without \<open>await\<close> (the task
  \<open>RunCampaign\<close>) or handed to \<open>setTimeout\<close> (the timer \<open>ExecuteCampaign\<close>).
\<close>

definition startCampaign :: "startRequest \<Rightarrow> nat \<Rightarrow> world \<Rightarrow> response \<times> world" where
  "startCampaign req now w =
     (if filter (\<lambda>cp. cp_status cp = ''active'') (getAllCampaigns w) \<noteq> [] then (alreadyActive, w)
      else
        let w1 = saveCampaign (sr_id req) (newCampaign req now) w;
            w2 = saveCampaignQueue (sr_id req) (sr_contacts req) w1;
            startNow = (campaignStarted req now, w2\<lparr>spawned := spawned w2 @ [RunCampaign (sr_id req)]\<rparr>)
        in case sr_scheduleTime req of
             None \<Rightarrow> startNow
           | Some t \<Rightarrow>
               if t > now then
                 let w3 = snd (updateCampaign (sr_id req) (noUpdates\<lparr>cu_status := Some ''scheduled''\<rparr>) w2)
                 in (campaignScheduled req now,
                     w3\<lparr>timers := timers w3 @ [(t - now, ExecuteCampaign (sr_id req))]\<rparr>)
               else startNow)"

definition contactObj :: "contact \<Rightarrow> obj" where
  "contactObj c =
     [(''phone_number'', JStr (phone_number c)), (''first_name'', first_name c),
      (''last_name'', last_name c), (''lead_source'', lead_source c), (''case_type'', case_type c),
      (''organizationid'', organizationid c), (''leadid'', leadid c)]"

text \<open>What \<open>makeCall\<close> sends to \<open>vapiService.createCall\<close>.\<close>

definition campaignCallRequest :: "string \<Rightarrow> contact \<Rightarrow> string \<Rightarrow> obj" where
  "campaignCallRequest campaignId c formattedPhone =
     [(''phone_number'', JStr formattedPhone),
      (''first_name'', js_or (first_name c) (JStr [])),
      (''last_name'', js_or (last_name c) (JStr [])),
      (''metadata'', JObj [(''campaignId'', JStr campaignId), (''leadSource'', lead_source c),
                            (''caseType'', case_type c), (''organizationId'', organizationid c),
                            (''leadId'', leadid c)])]"

text \<open>The result \<open>makeCall\<close> stores under the call id in the campaign's hash.\<close>

definition callResult :: "contact \<Rightarrow> obj \<Rightarrow> nat \<Rightarrow> obj" where
  "callResult c callData now =
     [(''contactId'', leadid c), (''callId'', getp callData ''id''),
      (''status'', JStr ''initiated''), (''startTime'', JDate now)]"

text \<open>The object \<open>makeCall\<close> hands to \<open>callMonitor.addCall\<close>.\<close>

definition campaignMonitoredCall :: "string \<Rightarrow> contact \<Rightarrow> obj \<Rightarrow> obj" where
  "campaignMonitoredCall campaignId c callData =
     spread callData
       [(''customer'', JObj (spread (asObj (getp callData ''customer''))
           [(''metadata'', JObj [(''campaignId'', JStr campaignId), (''leadSource'', lead_source c),
                                  (''caseType'', case_type c), (''organizationId'', organizationid c),
                                  (''leadId'', leadid c), (''first_name'', first_name c),
                                  (''last_name'', last_name c)])])),
        (''contact'', JObj [(''first_name'', first_name c), (''last_name'', last_name c),
                             (''lead_source'', lead_source c), (''case_type'', case_type c),
                             (''organizationid'', organizationid c), (''leadid'', leadid c)])]"

text \<open>The two broadcasts a dispatch can end with.\<close>

definition callInitiated :: "string \<Rightarrow> contact \<Rightarrow> obj \<Rightarrow> obj" where
  "callInitiated campaignId c callData =
     [(''type'', JStr ''call_initiated''), (''campaignId'', JStr campaignId),
      (''call'', JObj (spread callData [(''contact'', JObj (contactObj c))]))]"

definition callFailed :: "string \<Rightarrow> contact \<Rightarrow> string \<Rightarrow> obj" where
  "callFailed campaignId c message =
     [(''type'', JStr ''call_failed''), (''campaignId'', JStr campaignId),
      (''contact'', JObj (contactObj c)), (''error'', JStr message)]"

text \<open>
  The \<open>catch\<close> block of \<open>makeCall\<close>: the failure is counted (under the dotted keys) and
  broadcast; nothing is thrown on.
\<close>

definition dispatchFailed :: "string \<Rightarrow> contact \<Rightarrow> string \<Rightarrow> world \<Rightarrow> world" where
  "dispatchFailed campaignId c message w =
     (let w1 = (case getCampaign campaignId w of
                  None \<Rightarrow> w
                | Some cp \<Rightarrow>
                    snd (updateCampaign campaignId
                           (noUpdates\<lparr>cu_extra :=
                              [(''stats.failed'', JNum (st_failed (cp_stats cp) + 1)),
                               (''stats.inProgress'', JNum (max 0 (st_inProgress (cp_stats cp) - 1)))]\<rparr>)
                           w))
      in broadcastToClients (callFailed campaignId c message) w1)"

text \<open>
  \<open>makeCall(campaignId, contact)\<close>: one dispatch. Without the campaign record it
  returns at once; a number that does not format and a provider that refuses both
  end in the \<open>catch\<close> block.
\<close>

definition makeCall :: "string \<Rightarrow> contact \<Rightarrow> nat \<Rightarrow> world \<Rightarrow> world" where
  "makeCall campaignId c now w =
     (case getCampaign campaignId w of
        None \<Rightarrow> w
      | Some cp \<Rightarrow>
          (case formatToE164 (phone_number c) of
             None \<Rightarrow> dispatchFailed campaignId c (''Invalid phone number format: '' @ phone_number c) w
           | Some formattedPhone \<Rightarrow>
               (case vapiCreateCall w (campaignCallRequest campaignId c formattedPhone) of
                  Inl message \<Rightarrow> dispatchFailed campaignId c message w
                | Inr callData \<Rightarrow>
                    let w1 = addCallToCampaign campaignId (getp callData ''id'')
                               (callResult c callData now) w;
                        w2 = addCall (campaignMonitoredCall campaignId c callData) now w1
                    in broadcastToClients (callInitiated campaignId c callData) w2)))"

definition completeCampaign :: "string \<Rightarrow> nat \<Rightarrow> world \<Rightarrow> world" where
  "completeCampaign campaignId now w =
     (case getCampaign campaignId w of
        None \<Rightarrow> w
      | Some cp \<Rightarrow>
          (case updateCampaign campaignId
                  (noUpdates\<lparr>cu_status := Some ''completed'',
                              cu_extra := [(''endTime'', JDate now)]\<rparr>) w of
             (updatedCampaign, w1) \<Rightarrow>
               broadcastToClients
                 [(''type'', JStr ''campaign_completed''), (''campaignId'', JStr campaignId),
                  (''campaign'', campaignJson updatedCampaign)] w1))"

text \<open>
  The \<open>for\<close> loop of \<open>processBatch\<close>, run \<open>n = min(maxConcurrent, queueLength)\<close> times: each
  turn pops one contact, and a pop that finds the queue empty adds nothing.
\<close>

fun popContacts :: "nat \<Rightarrow> string \<Rightarrow> world \<Rightarrow> contact list \<times> world" where
  "popContacts 0 campaignId w = ([], w)"
| "popContacts (Suc n) campaignId w =
     (case getNextContact campaignId w of
        (None, w1) \<Rightarrow> popContacts n campaignId w1
      | (Some c, w1) \<Rightarrow>
          (case popContacts n campaignId w1 of (cs, w2) \<Rightarrow> (c # cs, w2)))"

text \<open>
  \<open>batch.map(contact => makeCall(campaignId, contact))\<close> starts every dispatch of the
  batch, and \<open>Promise.allSettled\<close> waits for all of them: they run concurrently, and the
  order in which they come to their writes is the provider's and the network's, not
  the program's. The model runs the dispatches of a batch to their end one at a time,
  in an order that is given from outside: \<open>settle picks batch\<close> takes, for each number
  \<open>i\<close> of \<open>picks\<close>, the element at position \<open>i mod n\<close> of the \<open>n\<close> dispatches still open, and
  then the rest in the order of the batch. Every order of the batch is \<open>settle picks
  batch\<close> for some \<open>picks\<close>.
\<close>

primrec settle :: "nat list \<Rightarrow> 'a list \<Rightarrow> 'a list" where
  "settle [] xs = xs"
| "settle (i # picks) xs =
     (if xs = [] then []
      else xs ! (i mod length xs)
           # settle picks (take (i mod length xs) xs @ drop (Suc (i mod length xs)) xs))"

text \<open>
  One run of \<open>processBatch\<close>, and what it ended with: \<open>Halted\<close> when the campaign is
  missing or not \<open>active\<close>, \<open>Completed\<close> when there was nothing to pop, \<open>Dispatched batch\<close>
  when \<open>makeCall\<close> was started for every contact of \<open>batch\<close> and, all of them settled, the
  next run is on a timer, \<open>Errored\<close> when the \<open>catch\<close> block put the next run on a timer.
\<close>

datatype batchOutcome = Halted | Completed | Dispatched "contact list" | Errored

definition processBatch ::
  "string \<Rightarrow> nat \<Rightarrow> int \<Rightarrow> nat list \<Rightarrow> nat \<Rightarrow> world \<Rightarrow> batchOutcome \<times> world" where
  "processBatch campaignId maxConcurrent callDelay picks now w =
     (case getCampaign campaignId w of
        None \<Rightarrow> (Halted, w)
      | Some currentCampaign \<Rightarrow>
          if cp_status currentCampaign \<noteq> ''active'' then (Halted, w)
          else
            let queueLength = getQueueLength campaignId w in
            if queueLength = 0 then (Completed, completeCampaign campaignId now w)
            else
              case popContacts (min maxConcurrent queueLength) campaignId w of
                (batch, w1) \<Rightarrow>
                  if batch = [] then (Completed, completeCampaign campaignId now w1)
                  else
                    case updateCampaign campaignId
                           (noUpdates\<lparr>cu_currentBatch := Some (cp_currentBatch currentCampaign + 1),
                              cu_extra :=
                                [(''stats.queued'', JNum (int (getQueueLength campaignId w1))),
                                 (''stats.inProgress'',
                                    JNum (st_inProgress (cp_stats currentCampaign) + int (length batch)))]\<rparr>)
                           w1 of
                      (None, w2) \<Rightarrow>
                        (Errored, w2\<lparr>timers := timers w2 @ [(nat callDelay, ProcessBatch campaignId)]\<rparr>)
                    | (Some updatedCampaign, w2) \<Rightarrow>
                        let w3 = broadcastToClients
                                   [(''type'', JStr ''campaign_update''),
                                    (''campaignId'', JStr campaignId),
                                    (''campaign'', JObj (campaignObj updatedCampaign))] w2;
                            w4 = fold (\<lambda>c. makeCall campaignId c now) (settle picks batch) w3
                        in (Dispatched batch,
                            w4\<lparr>timers := timers w4 @ [(nat callDelay, ProcessBatch campaignId)]\<rparr>))"

section \<open>Scenarios and spec notions used by the claims\<close>

text \<open>
  Modelled from the spec: the rank of a status. The code has no such function; \<section>4.1 of
  the spec orders the states \<open>queued \<rightarrow> ringing \<rightarrow> in-progress \<rightarrow> {ended | failed |
  no-answer}\<close> and gives the auxiliary states \<open>ending\<close> and \<open>transferring\<close> no place in the
  order.
\<close>

definition rank :: "jsval \<Rightarrow> nat option" where
  "rank st =
     (if st = JStr ''queued'' then Some 0
      else if st = JStr ''ringing'' then Some 1
      else if st = JStr ''in-progress'' then Some 2
      else if st \<in> {JStr ''ended'', JStr ''failed'', JStr ''no-answer''} then Some 3
      else None)"

definition registered :: "jsval \<Rightarrow> world \<Rightarrow> bool" where
  "registered callId w = (getCall callId w \<noteq> None)"

definition statusOf :: "jsval \<Rightarrow> world \<Rightarrow> jsval option" where
  "statusOf callId w = map_option (\<lambda>e. getp (props e) ''status'') (getCall callId w)"

text \<open>
  The scenario of the spec: a call to \<open>+15551234567\<close> is dispatched, the webhook
  \<open>status-update: in-progress\<close> arrives, then the final transcript \<open>"hello"\<close>.
\<close>

definition customerCall :: "string \<Rightarrow> jsval" where
  "customerCall st =
     JObj [(''id'', JStr ''call-1''), (''status'', JStr st),
           (''customer'', JObj [(''number'', JStr ''+15551234567''),
                                 (''metadata'', JObj [(''campaignId'', JStr ''camp-1'')])])]"

definition transcriptEvent :: "string \<Rightarrow> string \<Rightarrow> jsval" where
  "transcriptEvent kind said =
     JObj [(''type'', JStr ''transcript''), (''call'', customerCall ''in-progress''),
           (''transcript'', JStr said), (''transcriptType'', JStr kind), (''role'', JStr ''user'')]"

definition dispatched :: world where
  "dispatched = addCall (asObj (customerCall ''queued'')) 1 emptyWorld"

definition answered :: world where
  "answered = handleStatusUpdate (customerCall ''in-progress'') 2 dispatched"

definition talked :: world where
  "talked = handleTranscriptEvent (transcriptEvent ''final'' ''hello'') 3 answered"




section \<open>Facts about the registry operations\<close>

lemma map_of_spread:
  "map_of (spread a b) k = (case map_of (rev b) k of Some v \<Rightarrow> Some v | None \<Rightarrow> map_of a k)"
proof (induction b arbitrary: a)
  case Nil
  show ?case by (simp add: spread_def)
next
  case (Cons x b)
  obtain k' v' where x: "x = (k', v')" by (cases x)
  have "map_of (spread a (x # b)) k = map_of (spread (AList.update k' v' a) b) k"
    by (simp add: spread_def x)
  also have "\<dots> = (case map_of (rev b) k of Some v \<Rightarrow> Some v
                     | None \<Rightarrow> map_of (AList.update k' v' a) k)"
    by (rule Cons.IH)
  finally show ?case
    by (simp add: x update_conv map_add_def split: option.splits)
qed

lemma getp_spread:
  "getp (spread a b) k = (case map_of (rev b) k of Some v \<Rightarrow> v | None \<Rightarrow> getp a k)"
  by (simp add: getp_def map_of_spread split: option.splits)

lemma activeCalls_emitToListeners [simp]:
  "activeCalls (emitToListeners callId event w) = activeCalls w"
  by (simp add: emitToListeners_def split: option.splits)

lemma activeCalls_handleAudioStreamRetry [simp]:
  "activeCalls (handleAudioStreamRetry callId url n reason now w) = activeCalls w"
  by (simp add: handleAudioStreamRetry_def Let_def)

lemma activeCalls_setupAudioStreamWithRetry [simp]:
  "activeCalls (setupAudioStreamWithRetry callId url n now w) = activeCalls w"
  by (simp add: setupAudioStreamWithRetry_def split: option.splits)

lemma activeCalls_closeAudioStream [simp]:
  "activeCalls (closeAudioStream callId w) = activeCalls w"
  by (simp add: closeAudioStream_def setSocket_def split: option.splits)

lemma getCall_addCall:
  "getCall (getp callData ''id'') (addCall callData now w) =
     Some \<lparr>props = spread (scalarProps callData)
                      [(''addedAt'', JDate now),
                       (''extendedMonitoring'', js_or (getp callData ''extendedMonitoring'') (JBool False)),
                       (''debugMode'', js_or (getp callData ''debugMode'') (JBool False)),
                       (''hasActiveListeners'', JBool False),
                       (''listenerCount'', JNum 0)],
            transcript = [], events = [],
            statusHistory =
              [[(''status'', js_or (getp callData ''status'') (JStr ''queued'')),
                (''timestamp'', JDate now), (''source'', JStr ''call_creation'')]]\<rparr>"
  by (simp add: addCall_def getCall_def Let_def update_conv)

lemma activeCalls_callMethod:
  "name = ''addListener'' \<or> name = ''removeListener'' \<Longrightarrow>
     activeCalls (callMethod name args w) = activeCalls w"
  by (auto simp: callMethod_def resolveMethod_def classBody_def Let_def split: option.splits)

lemma activeCalls_runListenerCall [simp]:
  "activeCalls (runListenerCall x w) = activeCalls w"
  by (cases x) (simp_all add: activeCalls_callMethod)

lemma activeCalls_fold_runListenerCall [simp]:
  "activeCalls (fold runListenerCall xs w) = activeCalls w"
  by (induction xs arbitrary: w) simp_all

section \<open>C2: what removeCall checks\<close>

definition activeStatus :: "jsval \<Rightarrow> bool" where
  "activeStatus st = (st = JStr ''ringing'' \<or> st = JStr ''in-progress'' \<or> st = JStr ''answered'')"

text \<open>
  The registry after \<open>PATCH /api/calls/call-1/status\<close> with the body
  \<open>{status: 'ended', metadata: {listenerCount: 2}}\<close> on a call added at instant 1:
  callController.updateCallStatus passes \<open>{status, updatedAt, ...metadata}\<close> to
  \<open>updateCall\<close>.
\<close>

definition c2_world :: world where
  "c2_world =
     updateCall (JStr ''call-1'')
       \<lparr>u_props = [(''status'', JStr ''ended''), (''updatedAt'', JDate 2), (''listenerCount'', JNum 2)],
        u_transcript = None\<rparr> 2
       (addCall [(''id'', JStr ''call-1''), (''status'', JStr ''queued'')] 1 emptyWorld)"

lemmas c2_eval =
  c2_world_def emptyWorld_def addCall_def updateCall_def getCall_def removeCall_def
  setupAudioStreamWithRetry_def closeAudioStream_def spread_def scalarProps_def getp_def
  js_or_def Let_def update_conv

text \<open>
  C2, as stated, is false: the claim lets \<open>removeCall(callId, false)\<close> remove a call only
  when its \<open>listenerCount\<close> is 0 and its transcript is empty. Here the entry has
  \<open>listenerCount = 2\<close>, the status \<open>ended\<close> and no transcript; \<open>removeCall\<close> without
  \<open>force\<close> returns \<open>true\<close> and the entry is gone.
\<close>

theorem removeCall_ignores_listenerCount:
  "map_option (\<lambda>c. getp (props c) ''listenerCount'') (getCall (JStr ''call-1'') c2_world)
     = Some (JNum 2)
   \<and> fst (removeCall (JStr ''call-1'') False c2_world)
   \<and> getCall (JStr ''call-1'') (snd (removeCall (JStr ''call-1'') False c2_world)) = None"
  by (simp add: c2_eval)

text \<open>
  C2, amended: for a call in the registry, \<open>removeCall(callId, false)\<close> returns \<open>true\<close>
  exactly when the status is none of \<open>ringing\<close>, \<open>in-progress\<close>, \<open>answered\<close> and the
  transcript is empty (\<open>listenerCount\<close> is not read); when it returns \<open>true\<close> the entry is
  gone, when it returns \<open>false\<close> nothing at all has changed; \<open>removeCall(callId, true)\<close>
  always returns \<open>true\<close> and removes the entry.
\<close>

theorem removeCall_checks_status_and_transcript:
  "getCall callId w = Some c \<Longrightarrow>
     (fst (removeCall callId False w) =
        (\<not> activeStatus (getp (props c) ''status'') \<and> transcript c = []))
     \<and> (if fst (removeCall callId False w)
         then getCall callId (snd (removeCall callId False w)) = None
         else snd (removeCall callId False w) = w)
     \<and> fst (removeCall callId True w)
     \<and> getCall callId (snd (removeCall callId True w)) = None"
  by (auto simp: removeCall_def Let_def activeStatus_def getCall_def delete_conv)

theorem removeCall_checks_status_and_transcript_witness:
  "getCall (JStr ''call-1'') c2_world \<noteq> None
   \<and> fst (removeCall (JStr ''call-1'') False c2_world)
   \<and> fst (removeCall (JStr ''call-1'') True c2_world)
   \<and> getCall (JStr ''call-1'') (snd (removeCall (JStr ''call-1'') True c2_world)) = None"
proof -
  obtain c where c: "getCall (JStr ''call-1'') c2_world = Some c"
    by (simp add: c2_eval)
  have st: "getp (props c) ''status'' = JStr ''ended''" and tr: "transcript c = []"
    using c by (auto simp: c2_eval)
  show ?thesis
    using removeCall_checks_status_and_transcript [OF c] c st tr
    by (simp add: activeStatus_def)
qed

section \<open>C10: the listener methods that run never count\<close>

text \<open>
  C10: \<open>callMonitor.addListener\<close> and \<open>callMonitor.removeListener\<close> resolve to the later
  definitions, which only touch \<open>callListeners\<close>. So no sequence of calls to them, with
  any arguments, changes any registry entry; in particular an entry made by \<open>addCall\<close>
  keeps \<open>listenerCount = 0\<close> and \<open>hasActiveListeners = false\<close>.
\<close>

theorem listener_calls_never_count:
  "activeCalls (fold runListenerCall calls w) = activeCalls w
   \<and> map_option (\<lambda>c. (getp (props c) ''listenerCount'', getp (props c) ''hasActiveListeners''))
       (getCall (getp callData ''id'') (fold runListenerCall calls (addCall callData now w)))
     = Some (JNum 0, JBool False)"
proof -
  have "getCall (getp callData ''id'') (fold runListenerCall calls (addCall callData now w))
          = getCall (getp callData ''id'') (addCall callData now w)"
    by (simp add: getCall_def)
  then show ?thesis
    by (simp add: getCall_addCall getp_spread)
qed

section \<open>Facts about the audio stream monitor\<close>

lemma emitToListeners_alt:
  "emitToListeners c ev w =
     w\<lparr>delivered := delivered w @
        (case callListeners w c of None \<Rightarrow> []
         | Some listeners \<Rightarrow>
             map (\<lambda>(listenerId, callback). (c, listenerId, ev))
               (filter (\<lambda>(listenerId, callback). case callback of JFun f \<Rightarrow> True | _ \<Rightarrow> False)
                  listeners))\<rparr>"
  by (simp add: emitToListeners_def split: option.splits)

lemma retryBounded_delivered [simp]: "retryBounded (w\<lparr>delivered := x\<rparr>) = retryBounded w"
  by (simp add: retryBounded_def)

lemma retryBounded_audioStreams [simp]: "retryBounded (w\<lparr>audioStreams := x\<rparr>) = retryBounded w"
  by (simp add: retryBounded_def)

lemma retryBounded_activeCalls [simp]: "retryBounded (w\<lparr>activeCalls := x\<rparr>) = retryBounded w"
  by (simp add: retryBounded_def)

lemma retryBounded_callStateHistory [simp]:
  "retryBounded (w\<lparr>callStateHistory := x\<rparr>) = retryBounded w"
  by (simp add: retryBounded_def)

lemma retryBounded_callListeners [simp]:
  "retryBounded (w\<lparr>callListeners := x\<rparr>) = retryBounded w"
  by (simp add: retryBounded_def)

lemma retryBounded_emitToListeners [simp]:
  "retryBounded (emitToListeners c ev w) = retryBounded w"
  by (simp add: emitToListeners_alt)






lemma setSocket_fields [simp]:
  "sockets (setSocket i sk w) = (sockets w)[i := sk]"
  "timers (setSocket i sk w) = timers w"
  "retryAttempts (setSocket i sk w) = retryAttempts w"
  "audioStreams (setSocket i sk w) = audioStreams w"
  "callListeners (setSocket i sk w) = callListeners w"
  "delivered (setSocket i sk w) = delivered w"
  by (simp_all add: setSocket_def)


lemma list_all_nth: "list_all P xs \<Longrightarrow> i < length xs \<Longrightarrow> P (xs ! i)"
  by (simp add: list_all_length)








lemma closeAudioStream_fields [simp]:
  "timers (closeAudioStream c w) = timers w"
  "retryAttempts (closeAudioStream c w) = retryAttempts w"
  "callListeners (closeAudioStream c w) = callListeners w"
  by (simp_all add: closeAudioStream_def split: option.splits)











section \<open>C9: the audio stream retry policy\<close>










section \<open>Facts about the webhook handlers\<close>

lemma keys_update_present:
  "map_of al k \<noteq> None \<Longrightarrow> map fst (AList.update k v al) = map fst al"
  by (induction al) auto

lemma getCall_update_same [simp]:
  "getCall k (w\<lparr>activeCalls := AList.update k e (activeCalls w)\<rparr>) = Some e"
  by (simp add: getCall_def update_conv)

lemma getCall_setup [simp]:
  "getCall k (setupAudioStreamWithRetry c u n now w) = getCall k w"
  by (simp add: getCall_def)

lemma getCall_broadcastToClients [simp]: "getCall k (broadcastToClients m w) = getCall k w"
  by (simp add: getCall_def broadcastToClients_def)

lemma getCall_universalBroadcast [simp]: "getCall k (universalBroadcast m w) = getCall k w"
  by (simp add: getCall_def universalBroadcast_def)

lemma getCall_spawn [simp]: "getCall k (spawnUpdateCallStatus c st d w) = getCall k w"
  by (simp add: getCall_def spawnUpdateCallStatus_def)

lemma getCall_cleanupPhoneTracking [simp]: "getCall k (cleanupPhoneTracking c p w) = getCall k w"
  by (simp add: getCall_def cleanupPhoneTracking_def split: jsval.splits option.splits)

lemma getCall_timers [simp]: "getCall k (w\<lparr>timers := x\<rparr>) = getCall k w"
  by (simp add: getCall_def)

text \<open>What \<open>updateCall\<close> leaves in the registry under the id it was called with.\<close>

lemma getCall_updateCall_same:
  "getCall k w = Some e \<Longrightarrow>
     \<exists>e'. getCall k (updateCall k upd now w) = Some e'
        \<and> props e' = spread (spread (props e) (u_props upd)) [(''updatedAt'', JDate now)]
        \<and> transcript e' = (case u_transcript upd of Some t \<Rightarrow> t | None \<Rightarrow> transcript e)
        \<and> events e' = events e"
  by (simp add: updateCall_def Let_def split: option.splits)

lemma getCall_updateCall_other:
  "k' \<noteq> k \<Longrightarrow> getCall k' (updateCall k upd now w) = getCall k' w"
  by (simp add: updateCall_def Let_def getCall_def update_conv split: option.splits)

lemma registered_updateCall:
  "registered k' w \<Longrightarrow> registered k' (updateCall k upd now w)"
  unfolding registered_def
  by (cases "k' = k") (auto simp: getCall_updateCall_other dest: getCall_updateCall_same)

lemma registered_frame [simp]:
  "registered k (broadcastToClients m w) = registered k w"
  "registered k (universalBroadcast m w) = registered k w"
  "registered k (spawnUpdateCallStatus c st d w) = registered k w"
  "registered k (cleanupPhoneTracking c p w) = registered k w"
  "registered k (w\<lparr>timers := x\<rparr>) = registered k w"
  by (simp_all add: registered_def)

lemma registered_handleCallAnswered:
  "registered k w \<Longrightarrow> registered k (handleCallAnswered c now w)"
  by (simp add: handleCallAnswered_def registered_updateCall)

lemma registered_handleCallRinging:
  "registered k w \<Longrightarrow> registered k (handleCallRinging c now w)"
  by (simp add: handleCallRinging_def registered_updateCall)

lemma registered_handleCallFailed:
  "registered k w \<Longrightarrow> registered k (handleCallFailed c now w)"
  by (simp add: handleCallFailed_def Let_def registered_updateCall)

lemma registered_handleCallEnded:
  "registered k w \<Longrightarrow> registered k (handleCallEnded c now w)"
  by (simp add: handleCallEnded_def Let_def registered_updateCall)

lemma hasCallId_obj: "hasCallId c \<Longrightarrow> \<exists>ob. c = JObj ob"
  by (cases c) (simp_all add: hasCallId_def)

lemma statusOf_updateCall:
  assumes "registered k w"
  shows "statusOf k (updateCall k upd now w)
           = (case map_of (rev (u_props upd)) ''status'' of
                Some st \<Rightarrow> Some st
              | None \<Rightarrow> statusOf k w)"
proof -
  obtain e where e: "getCall k w = Some e" using assms by (auto simp: registered_def)
  from getCall_updateCall_same [OF e, of upd now] obtain e' where
    "getCall k (updateCall k upd now w) = Some e'"
    "props e' = spread (spread (props e) (u_props upd)) [(''updatedAt'', JDate now)]"
    by blast
  then show ?thesis
    using e by (simp add: statusOf_def getp_spread split: option.splits)
qed

lemma statusOf_handleStatusUpdate:
  assumes "hasCallId c"
  shows "statusOf (opt c ''id'') (handleStatusUpdate c now w) = Some (opt c ''status'')"
proof -
  obtain ob where c: "c = JObj ob" using hasCallId_obj [OF assms] by blast
  let ?k = "opt c ''id''"
  define w1 where "w1 = (case getCall ?k w of
                    Some cur \<Rightarrow>
                      w\<lparr>activeCalls := AList.update ?k
                           (cur\<lparr>statusHistory := statusHistory cur @
                              [[(''from'', getp (props cur) ''status''), (''to'', opt c ''status''),
                                (''timestamp'', JDate now)]]\<rparr>)
                           (activeCalls w)\<rparr>
                  | None \<Rightarrow>
                      addCall (spread (asObj c)
                        [(''addedAt'', JDate now), (''extendedMonitoring'', JBool True)]) now w)"
  have id: "getp (spread ob [(''addedAt'', JDate now), (''extendedMonitoring'', JBool True)]) ''id''
              = getp ob ''id''"
    by (simp add: getp_spread)
  have r1: "registered ?k w1"
  proof (cases "getCall ?k w")
    case None
    then show ?thesis
      using getCall_addCall [of "spread ob [(''addedAt'', JDate now), (''extendedMonitoring'', JBool True)]" now w]
      by (simp add: w1_def c id registered_def)
  next
    case (Some cur)
    then show ?thesis by (simp add: w1_def registered_def)
  qed
  define branch where "branch =
              (if opt c ''status'' \<in> set answeredStatuses then (True, handleCallAnswered c now w1)
               else if opt c ''status'' = JStr ''ringing'' then (False, handleCallRinging c now w1)
               else if opt c ''status'' = JStr ''queued'' then (False, w1)
               else if opt c ''status'' = JStr ''failed'' then (False, handleCallFailed c now w1)
               else if opt c ''status'' = JStr ''ended'' then (False, handleCallEnded c now w1)
               else if truthy (opt c ''status'') \<and> opt c ''status'' \<notin> {JStr ''queued'', JStr ''ringing'', JStr ''failed'',
                                           JStr ''ended'', JStr ''no-answer''}
                 then (True, handleCallAnswered c now w1)
               else (False, w1))"
  have r2: "registered ?k (snd branch)"
    using r1 by (simp add: branch_def registered_handleCallAnswered registered_handleCallRinging
        registered_handleCallFailed registered_handleCallEnded)
  have "handleStatusUpdate c now w =
          broadcastToClients
             [(''type'', JStr ''call_status_update''), (''callId'', ?k), (''status'', opt c ''status''),
              (''previousStatus'',
                 (case getCall ?k w of None \<Rightarrow> Undefined | Some cur \<Rightarrow> getp (props cur) ''status'')),
              (''timestamp'', JDate now),
              (''statusHistory'',
                 (case getCall ?k w of
                    None \<Rightarrow> Undefined
                  | Some cur \<Rightarrow>
                      (case getCall ?k (updateCall ?k
                   (plainUpdate ([(''status'', opt c ''status''), (''updatedAt'', JDate now)] @
                      (if fst branch then [(''answeredAt'', JDate now)] else []))) now (snd branch)) of
                         None \<Rightarrow> Undefined
                       | Some e \<Rightarrow> JArr (map JObj (statusHistory e)))))]
            (updateCall ?k
                   (plainUpdate ([(''status'', opt c ''status''), (''updatedAt'', JDate now)] @
                      (if fst branch then [(''answeredAt'', JDate now)] else []))) now (snd branch))"
    using assms unfolding handleStatusUpdate_def Let_def w1_def branch_def by simp
  then show ?thesis
    using r2 by (simp add: statusOf_def [of _ "broadcastToClients _ _"]
        statusOf_updateCall [unfolded statusOf_def] plainUpdate_def)
qed

section \<open>C3: a late no-answer event against answer evidence\<close>

text \<open>
  C3. When the entry of the call has a truthy \<open>answeredAt\<close> or at least one transcript
  line, \<open>handleCallNoAnswer\<close> changes nothing: not the entry (its status and \<open>endedAt\<close>
  included), not the list of started campaign updates, not the phone tracking, and
  it registers no timer.
\<close>

theorem no_answer_after_evidence_is_ignored:
  "getCall (opt c ''id'') w = Some cd \<Longrightarrow> hasAnswerIndicators cd \<Longrightarrow>
     handleCallNoAnswer c now w = w"
  by (simp add: handleCallNoAnswer_def)

theorem no_answer_after_evidence_is_ignored_witness:
  "statusOf (JStr ''call-1'') talked = Some (JStr ''in-progress'')
   \<and> map_option hasAnswerIndicators (getCall (JStr ''call-1'') talked) = Some True
   \<and> handleCallNoAnswer (customerCall ''no-answer'') 9 talked = talked
   \<and> statusOf (JStr ''call-1'') (handleCallNoAnswer (customerCall ''no-answer'') 9 talked)
       = Some (JStr ''in-progress'')"
proof -
  have ind: "map_option hasAnswerIndicators (getCall (JStr ''call-1'') talked) = Some True"
    by code_simp
  then obtain cd where cd: "getCall (JStr ''call-1'') talked = Some cd" and ev: "hasAnswerIndicators cd"
    by auto
  have st: "statusOf (JStr ''call-1'') talked = Some (JStr ''in-progress'')"
    by code_simp
  have k: "opt (customerCall ''no-answer'') ''id'' = JStr ''call-1''"
    by code_simp
  from no_answer_after_evidence_is_ignored [of "customerCall ''no-answer''" talked cd 9]
  have "handleCallNoAnswer (customerCall ''no-answer'') 9 talked = talked"
    using cd ev k by simp
  then show ?thesis using ind st by simp
qed

section \<open>C1: no status update is refused for its rank\<close>

text \<open>
  C1, as stated, is false. The call is \<open>in-progress\<close> (rank 2). \<open>updateCall\<close> with the
  status \<open>queued\<close> (rank 0) leaves it \<open>queued\<close>, and so does the webhook
  \<open>status-update: queued\<close>; neither is a promotion to \<open>in-progress\<close>.
\<close>

theorem status_update_can_regress:
  "statusOf (JStr ''call-1'') answered = Some (JStr ''in-progress'')
   \<and> statusOf (JStr ''call-1'')
        (updateCall (JStr ''call-1'') (plainUpdate [(''status'', JStr ''queued'')]) 4 answered)
       = Some (JStr ''queued'')
   \<and> statusOf (JStr ''call-1'') (handleStatusUpdate (customerCall ''queued'') 4 answered)
       = Some (JStr ''queued'')
   \<and> rank (JStr ''queued'') = Some 0 \<and> rank (JStr ''in-progress'') = Some 2"
  by code_simp

text \<open>
  C1, amended: both paths apply the reported status without comparing ranks.
  After \<open>updateCall(callId, updates)\<close> on a call of the registry, the status of the
  entry is the status the update carries (the last one, should the list give several),
  and the old status when the update has no \<open>status\<close> key. After the webhook status
  handler, for a payload with an id, the status of the entry is the reported status,
  whatever it was before.
\<close>

theorem reported_status_is_applied:
  "(registered callId w \<longrightarrow>
      statusOf callId (updateCall callId upd now w)
        = (case map_of (rev (u_props upd)) ''status'' of
             Some st \<Rightarrow> Some st
           | None \<Rightarrow> statusOf callId w))
   \<and> (hasCallId c \<longrightarrow>
        statusOf (opt c ''id'') (handleStatusUpdate c now w) = Some (opt c ''status''))"
  by (simp add: statusOf_updateCall statusOf_handleStatusUpdate)

theorem reported_status_is_applied_witness:
  "registered (JStr ''call-1'') talked
   \<and> hasCallId (customerCall ''ringing'')
   \<and> statusOf (JStr ''call-1'') talked = Some (JStr ''in-progress'')
   \<and> statusOf (JStr ''call-1'')
        (updateCall (JStr ''call-1'') (plainUpdate [(''status'', JStr ''queued'')]) 4 talked)
       = Some (JStr ''queued'')
   \<and> statusOf (JStr ''call-1'') (handleStatusUpdate (customerCall ''ringing'') 4 talked)
       = Some (JStr ''ringing'')"
proof -
  have r: "registered (JStr ''call-1'') talked"
    by code_simp
  have h: "hasCallId (customerCall ''ringing'')"
    by code_simp
  have k: "opt (customerCall ''ringing'') ''id'' = JStr ''call-1''"
    "opt (customerCall ''ringing'') ''status'' = JStr ''ringing''"
    by code_simp+
  have st: "statusOf (JStr ''call-1'') talked = Some (JStr ''in-progress'')"
    by code_simp
  from reported_status_is_applied [of "JStr ''call-1''" talked
      "plainUpdate [(''status'', JStr ''queued'')]" 4 "customerCall ''ringing''"]
  show ?thesis
    using r h k st by (simp add: plainUpdate_def)
qed

section \<open>C4: re-delivery of transcript events\<close>











lemma transcriptEntry_fields [simp]:
  "getp (transcriptEntry ev now) ''transcriptType'' = opt ev ''transcriptType''"
  "getp (transcriptEntry ev now) ''speaker''
     = (if opt ev ''role'' = JStr ''assistant'' then JStr ''assistant'' else JStr ''customer'')"
  by (simp_all add: transcriptEntry_def getp_def)

lemma activeCalls_broadcastToClients [simp]:
  "activeCalls (broadcastToClients m w) = activeCalls w"
  by (simp add: broadcastToClients_def)

lemma activeCalls_universalBroadcast [simp]:
  "activeCalls (universalBroadcast m w) = activeCalls w"
  by (simp add: universalBroadcast_def)






lemma store_emitToListeners [simp]:
  "campaigns (emitToListeners c e w) = campaigns w"
  "campaign_calls (emitToListeners c e w) = campaign_calls w"
  "spawned (emitToListeners c e w) = spawned w"
  by (simp_all add: emitToListeners_alt)

lemma store_setupAudioStreamWithRetry [simp]:
  "campaigns (setupAudioStreamWithRetry c u n now w) = campaigns w"
  "campaign_calls (setupAudioStreamWithRetry c u n now w) = campaign_calls w"
  "spawned (setupAudioStreamWithRetry c u n now w) = spawned w"
  by (simp_all add: setupAudioStreamWithRetry_def handleAudioStreamRetry_def Let_def
        split: option.splits)

lemma store_updateCall [simp]:
  "campaigns (updateCall k upd now w) = campaigns w"
  "campaign_calls (updateCall k upd now w) = campaign_calls w"
  "spawned (updateCall k upd now w) = spawned w"
  by (simp_all add: updateCall_def Let_def split: option.splits)








end
